theory Spec2Isabelle
  imports Complex_Main
begin

section \<open>Data model\<close>

text \<open>
  The persistence layer is a document store with four collections (rides, bookings,
  driver profiles, reviews). A collection is a list of documents in insertion order;
  a query by id or by filter returns the first document that matches, as
  \<^verbatim>\<open>findOne\<close> does. Object ids are natural numbers, JavaScript numbers are
  exact rationals, dates are milliseconds since the epoch, and status fields are the
  strings the source compares.

  Two things the documents of the source have are not in the model. The source computes
  in IEEE doubles; the model's arithmetic is exact, and agrees with the source on whole
  numbers (below \<open>2 ^ 53\<close>), so every statement below about the result of an
  addition or of the rating average is made for whole numbers only. And every schema of
  the source sets \<^verbatim>\<open>timestamps: true\<close>, which adds \<^verbatim>\<open>createdAt\<close> and
  \<^verbatim>\<open>updatedAt\<close> to a document and refreshes \<^verbatim>\<open>updatedAt\<close> on every write;
  only the \<^verbatim>\<open>createdAt\<close> of a review, which the source reads, is modelled, so no
  statement below says that a write left the other fields of a document untouched
  beyond the fields of these records.
\<close>

type_synonym objectId = nat
type_synonym number = rat
type_synonym date = int

text \<open>
  The failure responses of the controllers. The constructor carries what the JSON body
  carries besides a fixed message.
  \<^item> \<open>BadRequest m\<close>: status 400, body \<^verbatim>\<open>{message: m}\<close>;
  \<^item> \<open>NotFound m\<close>: status 404; \<open>Forbidden m\<close>: status 403;
  \<^item> \<open>OnlySeatsAvailable n\<close>: status 400, message \<^verbatim>\<open>Only ${n} seats available\<close>;
  \<^item> \<open>InvalidStatus opts\<close>: status 400, message
    \<^verbatim>\<open>Invalid status. Valid options: ...\<close>, nothing else in the body;
  \<^item> \<open>CannotChangeStatus cur tgt allowed\<close>: status 400, message
    \<^verbatim>\<open>Cannot change status from 'cur' to 'tgt'\<close>, with the fields
    \<^verbatim>\<open>currentStatus\<close> and \<^verbatim>\<open>allowedStatuses\<close>;
  \<^item> \<open>ServerError\<close>: status 500, from the \<^verbatim>\<open>catch\<close> block.
\<close>

datatype error =
    BadRequest string
  | NotFound string
  | Forbidden string
  | OnlySeatsAvailable number
  | InvalidStatus "string list"
  | CannotChangeStatus string string "string list"
  | ServerError

record ridePreferences =
  smokingAllowed :: bool
  petsAllowed :: bool
  musicAllowed :: bool
  acAvailable :: bool
  luggageSpace :: string

record ride =
  ride_id :: objectId
  driver :: objectId
  departureDate :: date
  departureTime :: string
  totalSeats :: number
  availableSeats :: number
  farePerSeat :: number
  preferences :: ridePreferences
  description :: string
  stops :: "string list"
  ride_status :: string
  passengers :: "objectId list"

record booking =
  booking_id :: objectId
  booking_ride :: objectId
  passenger :: objectId
  seatsBooked :: number
  pickupLocation :: string
  dropoffLocation :: string
  booking_farePerSeat :: number
  totalFare :: number
  booking_status :: string
  paymentStatus :: string
  paymentMethod :: string
  passengerNote :: "string option"
  driverNote :: "string option"
  cancelledBy :: "string option"
  cancellationReason :: "string option"
  cancelledAt :: "date option"
  confirmedAt :: "date option"
  comingForPickupAt :: "date option"
  pickedUpAt :: "date option"
  droppedOffAt :: "date option"
  completedAt :: "date option"

record driverProfile =
  profile_user :: objectId
  isApproved :: bool
  profile_rating :: number
  totalRides :: number
  totalEarnings :: number

record review =
  review_id :: objectId
  review_booking :: objectId
  review_ride :: objectId
  reviewer :: objectId
  reviewee :: objectId
  reviewType :: string
  review_rating :: number
  comment :: "string option"
  isVisible :: bool
  createdAt :: date

record db =
  rides :: "ride list"
  bookings :: "booking list"
  profiles :: "driverProfile list"
  reviews :: "review list"

section \<open>Store primitives\<close>

text \<open>
  \<open>update_first P f\<close> is the single-document write of \<^verbatim>\<open>findOneAndUpdate\<close>,
  \<^verbatim>\<open>findByIdAndUpdate\<close> and \<^verbatim>\<open>doc.save()\<close>: the first document
  matching the filter is changed, the others stay. \<open>update_many\<close> is
  \<^verbatim>\<open>updateMany\<close>.
\<close>

fun update_first :: "('a \<Rightarrow> bool) \<Rightarrow> ('a \<Rightarrow> 'a) \<Rightarrow> 'a list \<Rightarrow> 'a list" where
  "update_first P f [] = []"
| "update_first P f (x # xs) = (if P x then f x # xs else x # update_first P f xs)"

definition update_many :: "('a \<Rightarrow> bool) \<Rightarrow> ('a \<Rightarrow> 'a) \<Rightarrow> 'a list \<Rightarrow> 'a list" where
  "update_many P f xs = map (\<lambda>x. if P x then f x else x) xs"

definition findRide :: "objectId \<Rightarrow> db \<Rightarrow> ride option" where
  "findRide i d = find (\<lambda>r. ride_id r = i) (rides d)"

definition findBooking :: "objectId \<Rightarrow> db \<Rightarrow> booking option" where
  "findBooking i d = find (\<lambda>b. booking_id b = i) (bookings d)"

definition findProfile :: "objectId \<Rightarrow> db \<Rightarrow> driverProfile option" where
  "findProfile u d = find (\<lambda>p. profile_user p = u) (profiles d)"

definition saveBooking :: "booking \<Rightarrow> db \<Rightarrow> db" where
  "saveBooking b d =
     d\<lparr>bookings := update_first (\<lambda>x. booking_id x = booking_id b) (\<lambda>_. b) (bookings d)\<rparr>"

definition saveRide :: "ride \<Rightarrow> db \<Rightarrow> db" where
  "saveRide r d =
     d\<lparr>rides := update_first (\<lambda>x. ride_id x = ride_id r) (\<lambda>_. r) (rides d)\<rparr>"

section \<open>Booking controller\<close>

subsection \<open>updateBookingStatus\<close>

definition validStatuses :: "string list" where
  "validStatuses =
     [''coming-for-pickup'', ''picked-up'', ''in-transit'', ''dropped-off'', ''completed'']"

definition statusFlow :: "string \<Rightarrow> string list option" where
  "statusFlow = map_of
     [(''confirmed'', [''coming-for-pickup'']),
      (''coming-for-pickup'', [''picked-up'']),
      (''picked-up'', [''in-transit'']),
      (''in-transit'', [''dropped-off'']),
      (''dropped-off'', [''completed''])]"

text \<open>
  The handler of \<^verbatim>\<open>PATCH /api/bookings/:id/status\<close>. \<open>user\<close> is
  \<^verbatim>\<open>req.user._id\<close>, \<open>now\<close> the value of \<^verbatim>\<open>new Date()\<close>. A booking
  whose ride reference resolves to no ride is populated with \<^verbatim>\<open>null\<close>, and
  reading \<^verbatim>\<open>booking.ride.driver\<close> throws into the \<^verbatim>\<open>catch\<close> block.
  On a completion the driver's profile is credited first (\<^verbatim>\<open>$inc\<close>) and the
  booking is saved after it; the save writes the status, \<^verbatim>\<open>completedAt\<close> and
  \<^verbatim>\<open>paymentStatus\<close>, values that its validators accept. The result is the response
  together with the store after the request.
\<close>

definition updateBookingStatus ::
  "objectId \<Rightarrow> objectId \<Rightarrow> string \<Rightarrow> date \<Rightarrow> db \<Rightarrow> (error + booking) \<times> db" where
  "updateBookingStatus user i status now d =
     (if status \<notin> set validStatuses then (Inl (InvalidStatus validStatuses), d)
      else case findBooking i d of
        None \<Rightarrow> (Inl (NotFound ''Booking not found''), d)
      | Some b \<Rightarrow>
         (case findRide (booking_ride b) d of
            None \<Rightarrow> (Inl ServerError, d)
          | Some r \<Rightarrow>
             if driver r \<noteq> user then (Inl (Forbidden ''Not authorized''), d)
             else
               (case statusFlow (booking_status b) of
                  None \<Rightarrow> (Inl (CannotChangeStatus (booking_status b) status []), d)
                | Some allowedNextStatuses \<Rightarrow>
                   if status \<notin> set allowedNextStatuses
                   then (Inl (CannotChangeStatus (booking_status b) status allowedNextStatuses), d)
                   else
                     let b1 = b\<lparr>booking_status := status\<rparr> in
                     if status = ''coming-for-pickup'' then
                       (let b2 = b1\<lparr>comingForPickupAt := Some now\<rparr>
                        in (Inr b2, saveBooking b2 d))
                     else if status = ''picked-up'' then
                       (let b2 = b1\<lparr>pickedUpAt := Some now\<rparr>
                        in (Inr b2, saveBooking b2 d))
                     else if status = ''dropped-off'' then
                       (let b2 = b1\<lparr>droppedOffAt := Some now\<rparr>
                        in (Inr b2, saveBooking b2 d))
                     else if status = ''completed'' then
                       (let b2 = b1\<lparr>completedAt := Some now, paymentStatus := ''paid''\<rparr>;
                            d1 = d\<lparr>profiles :=
                                   update_first (\<lambda>p. profile_user p = user)
                                     (\<lambda>p. p\<lparr>totalRides := totalRides p + 1,
                                             totalEarnings := totalEarnings p + totalFare b1\<rparr>)
                                     (profiles d)\<rparr>
                        in (Inr b2, saveBooking b2 d1))
                     else (Inr b1, saveBooking b1 d))))"

subsection \<open>bookRide\<close>

text \<open>
  The body of \<^verbatim>\<open>POST /api/bookings\<close>. A field that is absent from the JSON is
  \<open>None\<close>; a location is represented by its address.
\<close>

record bookRideBody =
  req_rideId :: "objectId option"
  req_seatsBooked :: "number option"
  req_pickupLocation :: "string option"
  req_dropoffLocation :: "string option"
  req_passengerNote :: "string option"
  req_paymentMethod :: "string option"

text \<open>JavaScript truthiness of an optional string: absent and empty are falsy.\<close>

definition truthy :: "string option \<Rightarrow> bool" where
  "truthy s = (case s of None \<Rightarrow> False | Some t \<Rightarrow> t \<noteq> [])"

text \<open>The schema validators that \<^verbatim>\<open>Booking.create\<close> and \<^verbatim>\<open>booking.save()\<close> run.\<close>

definition noteWithinLimit :: "string option \<Rightarrow> bool" where
  "noteWithinLimit n = (case n of None \<Rightarrow> True | Some t \<Rightarrow> length t \<le> 200)"

definition validNewBooking :: "booking \<Rightarrow> bool" where
  "validNewBooking b =
     (1 \<le> seatsBooked b \<and> paymentMethod b \<in> set [''cash'', ''online''] \<and>
      noteWithinLimit (passengerNote b))"

text \<open>
  \<open>newId\<close> is the object id given to the created booking. A booking that fails schema
  validation throws into the \<^verbatim>\<open>catch\<close> block. The response carries the created
  booking; its population with ride and driver details is a read and is left out. The
  fare \<open>seats * farePerSeat\<close> is an exact product here and a product of doubles in the
  source; the two agree on whole numbers.
\<close>

definition bookRide ::
  "objectId \<Rightarrow> bookRideBody \<Rightarrow> objectId \<Rightarrow> db \<Rightarrow> (error + booking) \<times> db" where
  "bookRide user body newId d =
     (case req_rideId body of
        None \<Rightarrow> (Inl (BadRequest ''Ride ID is required''), d)
      | Some rideId \<Rightarrow>
         (case req_seatsBooked body of
            None \<Rightarrow> (Inl (BadRequest ''At least 1 seat must be booked''), d)
          | Some seats \<Rightarrow>
             if seats = 0 \<or> seats < 1
             then (Inl (BadRequest ''At least 1 seat must be booked''), d)
             else if \<not> truthy (req_pickupLocation body)
             then (Inl (BadRequest ''Pickup location is required''), d)
             else if \<not> truthy (req_dropoffLocation body)
             then (Inl (BadRequest ''Dropoff location is required''), d)
             else
               (case findRide rideId d of
                  None \<Rightarrow> (Inl (NotFound ''Ride not found''), d)
                | Some r \<Rightarrow>
                   if ride_status r \<noteq> ''scheduled''
                   then (Inl (BadRequest ''This ride is no longer available for booking''), d)
                   else if availableSeats r < seats
                   then (Inl (OnlySeatsAvailable (availableSeats r)), d)
                   else if find (\<lambda>b. booking_ride b = rideId \<and> passenger b = user \<and>
                                      booking_status b \<notin> set [''cancelled'', ''rejected''])
                             (bookings d) \<noteq> None
                   then (Inl (BadRequest ''You have already booked this ride''), d)
                   else if driver r = user
                   then (Inl (BadRequest ''You cannot book your own ride''), d)
                   else
                     let b = \<lparr>booking_id = newId,
                              booking_ride = rideId,
                              passenger = user,
                              seatsBooked = seats,
                              pickupLocation = the (req_pickupLocation body),
                              dropoffLocation = the (req_dropoffLocation body),
                              booking_farePerSeat = farePerSeat r,
                              totalFare = seats * farePerSeat r,
                              booking_status = ''pending'',
                              paymentStatus = ''pending'',
                              paymentMethod =
                                (if truthy (req_paymentMethod body)
                                 then the (req_paymentMethod body) else ''cash''),
                              passengerNote = req_passengerNote body,
                              driverNote = None,
                              cancelledBy = None,
                              cancellationReason = None,
                              cancelledAt = None,
                              confirmedAt = None,
                              comingForPickupAt = None,
                              pickedUpAt = None,
                              droppedOffAt = None,
                              completedAt = None\<rparr>
                     in if \<not> validNewBooking b then (Inl ServerError, d)
                        else
                          let d1 = d\<lparr>bookings := bookings d @ [b]\<rparr>;
                              r1 = r\<lparr>availableSeats := availableSeats r - seats,
                                     passengers := passengers r @ [newId]\<rparr>
                          in (Inr b, saveRide r1 d1))))"

subsection \<open>respondToBooking\<close>

text \<open>
  The handler of \<^verbatim>\<open>PATCH /api/bookings/:id/respond\<close>. On a rejection the ride is
  written (\<^verbatim>\<open>$inc\<close> of the seats, \<^verbatim>\<open>$pull\<close> of the booking reference)
  before the booking is saved; a new driver note over the schema's 200 characters makes
  \<^verbatim>\<open>booking.save()\<close> throw after that write. (The message of the first
  answer ends in a quotation mark in the source; it is written with a blank after it.)
\<close>

definition respondToBooking ::
  "objectId \<Rightarrow> objectId \<Rightarrow> string \<Rightarrow> string option \<Rightarrow> date \<Rightarrow> db \<Rightarrow> (error + booking) \<times> db" where
  "respondToBooking user i action note now d =
     (if action \<notin> set [''confirm'', ''reject'']
      then (Inl (BadRequest ''Invalid action. Use 'confirm' or 'reject' ''), d)
      else case findBooking i d of
        None \<Rightarrow> (Inl (NotFound ''Booking not found''), d)
      | Some b \<Rightarrow>
         (case findRide (booking_ride b) d of
            None \<Rightarrow> (Inl ServerError, d)
          | Some r \<Rightarrow>
             if driver r \<noteq> user then (Inl (Forbidden ''Not authorized''), d)
             else if booking_status b \<noteq> ''pending''
             then (Inl (BadRequest ''Can only respond to pending bookings''), d)
             else
               let (b1, d1) =
                     (if action = ''confirm''
                      then (b\<lparr>booking_status := ''confirmed'', confirmedAt := Some now\<rparr>, d)
                      else (b\<lparr>booking_status := ''rejected''\<rparr>,
                            d\<lparr>rides :=
                                update_first (\<lambda>x. ride_id x = ride_id r)
                                  (\<lambda>x. x\<lparr>availableSeats := availableSeats x + seatsBooked b,
                                          passengers := removeAll (booking_id b) (passengers x)\<rparr>)
                                  (rides d)\<rparr>));
                   b2 = (if truthy note then b1\<lparr>driverNote := note\<rparr> else b1)
               in if \<not> (driverNote b2 = driverNote b \<or> noteWithinLimit (driverNote b2))
                  then (Inl ServerError, d1)
                  else (Inr b2, saveBooking b2 d1)))"

section \<open>Ride controller\<close>

subsection \<open>updateRideStatus\<close>

definition validRideStatuses :: "string list" where
  "validRideStatuses = [''scheduled'', ''in-progress'', ''completed'', ''cancelled'']"

text \<open>The query \<^verbatim>\<open>Ride.findOne({ _id: id, driver: req.user._id })\<close>.\<close>

definition findOwnRide :: "objectId \<Rightarrow> objectId \<Rightarrow> db \<Rightarrow> ride option" where
  "findOwnRide i user d = find (\<lambda>r. ride_id r = i \<and> driver r = user) (rides d)"

definition updateRideStatus ::
  "objectId \<Rightarrow> objectId \<Rightarrow> string \<Rightarrow> date \<Rightarrow> db \<Rightarrow> (error + ride) \<times> db" where
  "updateRideStatus user i status now d =
     (if status \<notin> set validRideStatuses then (Inl (BadRequest ''Invalid status''), d)
      else case findOwnRide i user d of
        None \<Rightarrow> (Inl (NotFound ''Ride not found''), d)
      | Some r \<Rightarrow>
         let r1 = r\<lparr>ride_status := status\<rparr>;
             d1 = saveRide r1 d;
             d2 = (if status = ''cancelled''
                   then d1\<lparr>bookings :=
                          update_many
                            (\<lambda>b. booking_ride b = i \<and>
                                 booking_status b \<in> set [''pending'', ''confirmed''])
                            (\<lambda>b. b\<lparr>booking_status := ''cancelled'',
                                    cancelledBy := Some ''driver'',
                                    cancelledAt := Some now\<rparr>)
                            (bookings d1)\<rparr>
                   else d1)
         in (Inr r1, d2))"

subsection \<open>updateRide\<close>

text \<open>
  The body of \<^verbatim>\<open>PUT /api/rides/:id\<close>, restricted to the fields the handler copies;
  \<open>None\<close> is \<^verbatim>\<open>undefined\<close>.
\<close>

record rideUpdates =
  upd_departureDate :: "date option"
  upd_departureTime :: "string option"
  upd_totalSeats :: "number option"
  upd_farePerSeat :: "number option"
  upd_preferences :: "ridePreferences option"
  upd_description :: "string option"
  upd_stops :: "string list option"

definition assign :: "'a option \<Rightarrow> 'a \<Rightarrow> 'a" where
  "assign u old = (case u of None \<Rightarrow> old | Some v \<Rightarrow> v)"

text \<open>
  The schema validators \<^verbatim>\<open>ride.save()\<close> runs on the paths that changed:
  \<^verbatim>\<open>departureTime\<close> required (not the empty string), \<^verbatim>\<open>totalSeats\<close> between
  1 and 8, \<^verbatim>\<open>farePerSeat\<close> not negative, \<^verbatim>\<open>preferences.luggageSpace\<close> one of
  its three values, \<^verbatim>\<open>description\<close> of at most 500 characters. A body whose
  fields have another JSON type than the schema's (a \<^verbatim>\<open>null\<close>, a text where a
  number or a date is expected) is outside the typed request of the model; the source
  answers it with 500.
\<close>

definition validRideChange :: "ride \<Rightarrow> ride \<Rightarrow> bool" where
  "validRideChange old new =
     ((departureTime new = departureTime old \<or> departureTime new \<noteq> []) \<and>
      (totalSeats new = totalSeats old \<or> (1 \<le> totalSeats new \<and> totalSeats new \<le> 8)) \<and>
      (farePerSeat new = farePerSeat old \<or> 0 \<le> farePerSeat new) \<and>
      (luggageSpace (preferences new) = luggageSpace (preferences old) \<or>
       luggageSpace (preferences new) \<in> set [''small'', ''medium'', ''large'']) \<and>
      (description new = description old \<or> length (description new) \<le> 500))"

definition updateRide ::
  "objectId \<Rightarrow> objectId \<Rightarrow> rideUpdates \<Rightarrow> db \<Rightarrow> (error + ride) \<times> db" where
  "updateRide user i updates d =
     (case findOwnRide i user d of
        None \<Rightarrow> (Inl (NotFound ''Ride not found''), d)
      | Some r \<Rightarrow>
         if find (\<lambda>b. booking_ride b = i \<and>
                       booking_status b \<in> set [''confirmed'', ''completed''])
              (bookings d) \<noteq> None
         then (Inl (BadRequest ''Cannot update ride with confirmed bookings''), d)
         else
           let r1 = r\<lparr>departureDate := assign (upd_departureDate updates) (departureDate r),
                      departureTime := assign (upd_departureTime updates) (departureTime r),
                      totalSeats := assign (upd_totalSeats updates) (totalSeats r),
                      farePerSeat := assign (upd_farePerSeat updates) (farePerSeat r),
                      preferences := assign (upd_preferences updates) (preferences r),
                      description := assign (upd_description updates) (description r),
                      stops := assign (upd_stops updates) (stops r)\<rparr>;
               r2 = (case upd_totalSeats updates of
                       None \<Rightarrow> r1
                     | Some n \<Rightarrow> if n \<noteq> 0 then r1\<lparr>availableSeats := n\<rparr> else r1)
           in if \<not> validRideChange r r2 then (Inl ServerError, d)
              else (Inr r2, saveRide r2 d))"

section \<open>Review controller\<close>

subsection \<open>updateDriverRating\<close>

text \<open>
  The query of the helper: the visible passenger-to-driver reviews whose reviewee is the
  driver.
\<close>

definition driverReviews :: "objectId \<Rightarrow> db \<Rightarrow> review list" where
  "driverReviews driverId d =
     filter (\<lambda>v. reviewee v = driverId \<and> reviewType v = ''passenger-to-driver'' \<and> isVisible v)
       (reviews d)"

text \<open>
  \<^verbatim>\<open>Math.round\<close> rounds to the nearest integer, a half towards plus infinity. The
  source computes the average, its tenfold and the final tenth in doubles; the model
  computes them exactly. For whole-number ratings the two agree; for fractional ratings,
  which the handlers accept, they can differ in the last decimal (the ratings 1.2 and 1.9
  give 1.5 in doubles and 1.6 exactly), so the statements about the stored average ask
  for whole-number ratings.
\<close>

definition math_round :: "number \<Rightarrow> number" where
  "math_round x = of_int \<lfloor>x + 1 / 2\<rfloor>"

definition updateDriverRating :: "objectId \<Rightarrow> db \<Rightarrow> db" where
  "updateDriverRating driverId d =
     (let rs = driverReviews driverId d in
      if length rs > 0 then
        let avgRating = fold (\<lambda>r sum. sum + review_rating r) rs 0 / of_nat (length rs)
        in d\<lparr>profiles :=
               update_first (\<lambda>p. profile_user p = driverId)
                 (\<lambda>p. p\<lparr>profile_rating := math_round (avgRating * 10) / 10\<rparr>)
                 (profiles d)\<rparr>
      else d)"

subsection \<open>createReview\<close>

text \<open>
  The schema validators of a review: rating from 1 to 5, comment of at most 500
  characters. \<^verbatim>\<open>Review.create\<close> runs them on the new document,
  \<^verbatim>\<open>review.save()\<close> on the paths that changed.
\<close>

definition validReview :: "review \<Rightarrow> bool" where
  "validReview v =
     (1 \<le> review_rating v \<and> review_rating v \<le> 5 \<and>
      (case comment v of None \<Rightarrow> True | Some c \<Rightarrow> length c \<le> 500))"

definition validReviewChange :: "review \<Rightarrow> review \<Rightarrow> bool" where
  "validReviewChange old new =
     ((review_rating new = review_rating old \<or>
       (1 \<le> review_rating new \<and> review_rating new \<le> 5)) \<and>
      (comment new = comment old \<or>
       (case comment new of None \<Rightarrow> True | Some c \<Rightarrow> length c \<le> 500)))"

text \<open>
  The handler of \<^verbatim>\<open>POST /api/reviews\<close>; \<open>newId\<close> is the object id given to the
  created review and \<open>now\<close> its creation time. The optional aspect sub-ratings are left
  out.
\<close>

definition createReview ::
  "objectId \<Rightarrow> objectId \<Rightarrow> number option \<Rightarrow> string option \<Rightarrow> objectId \<Rightarrow> date \<Rightarrow> db
     \<Rightarrow> (error + review) \<times> db" where
  "createReview user bookingId rating cmt newId now d =
     (case rating of
        None \<Rightarrow> (Inl (BadRequest ''Rating must be between 1 and 5''), d)
      | Some rt \<Rightarrow>
         if rt = 0 \<or> rt < 1 \<or> rt > 5
         then (Inl (BadRequest ''Rating must be between 1 and 5''), d)
         else
           (case findBooking bookingId d of
              None \<Rightarrow> (Inl (NotFound ''Booking not found''), d)
            | Some b \<Rightarrow>
               if booking_status b \<noteq> ''completed''
               then (Inl (BadRequest ''Can only review completed rides''), d)
               else
                 (case findRide (booking_ride b) d of
                    None \<Rightarrow> (Inl ServerError, d)
                  | Some r \<Rightarrow>
                     let isPassenger = (passenger b = user);
                         isDriver = (driver r = user)
                     in if \<not> isPassenger \<and> \<not> isDriver
                        then (Inl (Forbidden ''You are not part of this booking''), d)
                        else
                          let rtype = (if isPassenger then ''passenger-to-driver''
                                       else ''driver-to-passenger'');
                              rvee = (if isPassenger then driver r else passenger b)
                          in if find (\<lambda>v. review_booking v = bookingId \<and> reviewer v = user)
                                  (reviews d) \<noteq> None
                             then (Inl (BadRequest ''You have already reviewed this ride''), d)
                             else
                               let v = \<lparr>review_id = newId,
                                        review_booking = bookingId,
                                        review_ride = ride_id r,
                                        reviewer = user,
                                        reviewee = rvee,
                                        reviewType = rtype,
                                        review_rating = rt,
                                        comment = cmt,
                                        isVisible = True,
                                        createdAt = now\<rparr>
                               in if \<not> validReview v then (Inl ServerError, d)
                                  else
                                    let d1 = d\<lparr>reviews := reviews d @ [v]\<rparr>;
                                        d2 = (if rtype = ''passenger-to-driver''
                                              then updateDriverRating rvee d1 else d1)
                                    in (Inr v, d2))))"

subsection \<open>updateReview and deleteReview\<close>

text \<open>The query \<^verbatim>\<open>Review.findOne({ _id: id, reviewer: req.user._id })\<close>.\<close>

definition findOwnReview :: "objectId \<Rightarrow> objectId \<Rightarrow> db \<Rightarrow> review option" where
  "findOwnReview i user d = find (\<lambda>v. review_id v = i \<and> reviewer v = user) (reviews d)"

definition hoursAgo :: "date \<Rightarrow> review \<Rightarrow> number" where
  "hoursAgo now v = of_int (now - createdAt v) / (1000 * 60 * 60)"

definition saveReview :: "review \<Rightarrow> db \<Rightarrow> db" where
  "saveReview v d =
     d\<lparr>reviews := update_first (\<lambda>x. review_id x = review_id v) (\<lambda>_. v) (reviews d)\<rparr>"

text \<open>\<^verbatim>\<open>deleteOne\<close>: the first document matching the filter is removed.\<close>

fun delete_first :: "('a \<Rightarrow> bool) \<Rightarrow> 'a list \<Rightarrow> 'a list" where
  "delete_first P [] = []"
| "delete_first P (x # xs) = (if P x then xs else x # delete_first P xs)"

text \<open>
  In \<open>updateReview\<close>, \<open>rating\<close> is assigned when truthy (present and not 0) and
  \<open>cmt\<close> when present.
\<close>

definition updateReview ::
  "objectId \<Rightarrow> objectId \<Rightarrow> number option \<Rightarrow> string option \<Rightarrow> date \<Rightarrow> db
     \<Rightarrow> (error + review) \<times> db" where
  "updateReview user i rating cmt now d =
     (case findOwnReview i user d of
        None \<Rightarrow> (Inl (NotFound ''Review not found''), d)
      | Some v \<Rightarrow>
         if hoursAgo now v > 24
         then (Inl (BadRequest ''Can only edit reviews within 24 hours''), d)
         else
           let v1 = (case rating of
                       None \<Rightarrow> v
                     | Some rt \<Rightarrow> if rt \<noteq> 0 then v\<lparr>review_rating := rt\<rparr> else v);
               v2 = (case cmt of None \<Rightarrow> v1 | Some c \<Rightarrow> v1\<lparr>comment := Some c\<rparr>)
           in if \<not> validReviewChange v v2 then (Inl ServerError, d)
              else
                let d1 = saveReview v2 d;
                    d2 = (if reviewType v2 = ''passenger-to-driver''
                          then updateDriverRating (reviewee v2) d1 else d1)
                in (Inr v2, d2))"

definition deleteReview :: "objectId \<Rightarrow> objectId \<Rightarrow> date \<Rightarrow> db \<Rightarrow> (error + unit) \<times> db" where
  "deleteReview user i now d =
     (case findOwnReview i user d of
        None \<Rightarrow> (Inl (NotFound ''Review not found''), d)
      | Some v \<Rightarrow>
         if hoursAgo now v > 24
         then (Inl (BadRequest ''Can only delete reviews within 24 hours''), d)
         else
           let revieweeId = reviewee v;
               rtype = reviewType v;
               d1 = d\<lparr>reviews := delete_first (\<lambda>x. review_id x = i) (reviews d)\<rparr>;
               d2 = (if rtype = ''passenger-to-driver''
                     then updateDriverRating revieweeId d1 else d1)
           in (Inr (), d2))"

section \<open>The specification's vocabulary\<close>

text \<open>
  The linear chain of the specification, written out pair by pair:
  confirmed, coming-for-pickup, picked-up, in-transit, dropped-off, completed.
\<close>

definition chain_adjacent :: "string \<Rightarrow> string \<Rightarrow> bool" where
  "chain_adjacent s t =
     ((s = ''confirmed'' \<and> t = ''coming-for-pickup'') \<or>
      (s = ''coming-for-pickup'' \<and> t = ''picked-up'') \<or>
      (s = ''picked-up'' \<and> t = ''in-transit'') \<or>
      (s = ''in-transit'' \<and> t = ''dropped-off'') \<or>
      (s = ''dropped-off'' \<and> t = ''completed''))"

text \<open>
  The specification's rating aggregate: the arithmetic mean of the ratings rounded to one
  decimal place. The mean of no ratings does not exist.
\<close>

definition spec_mean_rating :: "number list \<Rightarrow> number option" where
  "spec_mean_rating rs =
     (if rs = [] then None
      else Some (of_int \<lfloor>sum_list rs / of_nat (length rs) * 10 + 1 / 2\<rfloor> / 10))"

section \<open>Sample documents\<close>

definition sample_ride :: ride where
  "sample_ride =
     \<lparr>ride_id = 1, driver = 10, departureDate = 1000, departureTime = ''09:00'',
      totalSeats = 4, availableSeats = 4, farePerSeat = 100,
      preferences = \<lparr>smokingAllowed = False, petsAllowed = False, musicAllowed = True,
                     acAvailable = True, luggageSpace = ''medium''\<rparr>,
      description = [], stops = [], ride_status = ''scheduled'', passengers = []\<rparr>"

definition sample_booking :: "string \<Rightarrow> booking" where
  "sample_booking s =
     \<lparr>booking_id = 100, booking_ride = 1, passenger = 20, seatsBooked = 3,
      pickupLocation = ''A'', dropoffLocation = ''B'', booking_farePerSeat = 100,
      totalFare = 300, booking_status = s, paymentStatus = ''pending'',
      paymentMethod = ''cash'', passengerNote = None, driverNote = None,
      cancelledBy = None, cancellationReason = None, cancelledAt = None,
      confirmedAt = None, comingForPickupAt = None, pickedUpAt = None,
      droppedOffAt = None, completedAt = None\<rparr>"

definition sample_profile :: driverProfile where
  "sample_profile =
     \<lparr>profile_user = 10, isApproved = True, profile_rating = 0, totalRides = 0,
      totalEarnings = 0\<rparr>"

definition sample_review :: "objectId \<Rightarrow> number \<Rightarrow> review" where
  "sample_review i rt =
     \<lparr>review_id = i, review_booking = 100 + i, review_ride = 1, reviewer = 20 + i,
      reviewee = 10, reviewType = ''passenger-to-driver'', review_rating = rt,
      comment = None, isVisible = True, createdAt = 0\<rparr>"

text \<open>A store with one ride, one booking on it in status \<open>s\<close>, and the driver's profile.\<close>

definition sample_db :: "string \<Rightarrow> db" where
  "sample_db s =
     \<lparr>rides = [sample_ride\<lparr>availableSeats := 1, passengers := [100]\<rparr>],
      bookings = [sample_booking s],
      profiles = [sample_profile],
      reviews = []\<rparr>"

text \<open>A store with the driver's profile at rating \<open>rt\<close> and the reviews \<open>vs\<close>.\<close>

definition sample_review_db :: "number \<Rightarrow> review list \<Rightarrow> db" where
  "sample_review_db rt vs =
     \<lparr>rides = [sample_ride],
      bookings = [],
      profiles = [sample_profile\<lparr>profile_rating := rt\<rparr>],
      reviews = vs\<rparr>"

text \<open>A store with the sample ride, all 4 seats free, and no booking yet.\<close>

definition sample_open_db :: db where
  "sample_open_db =
     \<lparr>rides = [sample_ride], bookings = [], profiles = [sample_profile], reviews = []\<rparr>"

text \<open>A well-formed request for \<open>n\<close> seats on the sample ride.\<close>

definition sample_body :: "number \<Rightarrow> bookRideBody" where
  "sample_body n =
     \<lparr>req_rideId = Some 1, req_seatsBooked = Some n, req_pickupLocation = Some ''A'',
      req_dropoffLocation = Some ''B'', req_passengerNote = None, req_paymentMethod = None\<rparr>"

section \<open>bookRide, await by await\<close>

text \<open>
  \<open>bookRide\<close> reaches the store four times, each time behind an \<^verbatim>\<open>await\<close>:
  \<^verbatim>\<open>Ride.findById\<close>, \<^verbatim>\<open>Booking.findOne\<close>, \<^verbatim>\<open>Booking.create\<close> and
  \<^verbatim>\<open>ride.save()\<close>. Between two of them another request can run. The four steps
  are given here one by one; the code between two awaits works on the ride document
  that the first step read.

  \<open>bookRide_findRide\<close>: the checks of the body, the read of the ride, and the checks of
  the status and the seat count of the document read.
\<close>

definition bookRide_findRide :: "bookRideBody \<Rightarrow> db \<Rightarrow> error + ride" where
  "bookRide_findRide body d =
     (case req_rideId body of
        None \<Rightarrow> Inl (BadRequest ''Ride ID is required'')
      | Some rideId \<Rightarrow>
         (case req_seatsBooked body of
            None \<Rightarrow> Inl (BadRequest ''At least 1 seat must be booked'')
          | Some seats \<Rightarrow>
             if seats = 0 \<or> seats < 1
             then Inl (BadRequest ''At least 1 seat must be booked'')
             else if \<not> truthy (req_pickupLocation body)
             then Inl (BadRequest ''Pickup location is required'')
             else if \<not> truthy (req_dropoffLocation body)
             then Inl (BadRequest ''Dropoff location is required'')
             else
               (case findRide rideId d of
                  None \<Rightarrow> Inl (NotFound ''Ride not found'')
                | Some r \<Rightarrow>
                   if ride_status r \<noteq> ''scheduled''
                   then Inl (BadRequest ''This ride is no longer available for booking'')
                   else if availableSeats r < seats
                   then Inl (OnlySeatsAvailable (availableSeats r))
                   else Inr r)))"

text \<open>
  \<open>bookRide_findExisting\<close>: the query for a live booking of the same passenger, and the
  comparison of the passenger with the driver of the document read.
\<close>

definition bookRide_findExisting :: "objectId \<Rightarrow> bookRideBody \<Rightarrow> ride \<Rightarrow> db \<Rightarrow> error + unit" where
  "bookRide_findExisting user body r d =
     (if find (\<lambda>b. booking_ride b = the (req_rideId body) \<and> passenger b = user \<and>
                    booking_status b \<notin> set [''cancelled'', ''rejected''])
           (bookings d) \<noteq> None
      then Inl (BadRequest ''You have already booked this ride'')
      else if driver r = user
      then Inl (BadRequest ''You cannot book your own ride'')
      else Inr ())"

text \<open>\<open>bookRide_create\<close>: \<^verbatim>\<open>Booking.create\<close>, with the fare of the document read.\<close>

definition bookRide_create ::
  "objectId \<Rightarrow> bookRideBody \<Rightarrow> ride \<Rightarrow> objectId \<Rightarrow> db \<Rightarrow> (error + booking) \<times> db" where
  "bookRide_create user body r newId d =
     (let seats = the (req_seatsBooked body);
          b = \<lparr>booking_id = newId,
               booking_ride = the (req_rideId body),
               passenger = user,
               seatsBooked = seats,
               pickupLocation = the (req_pickupLocation body),
               dropoffLocation = the (req_dropoffLocation body),
               booking_farePerSeat = farePerSeat r,
               totalFare = seats * farePerSeat r,
               booking_status = ''pending'',
               paymentStatus = ''pending'',
               paymentMethod =
                 (if truthy (req_paymentMethod body)
                  then the (req_paymentMethod body) else ''cash''),
               passengerNote = req_passengerNote body,
               driverNote = None,
               cancelledBy = None,
               cancellationReason = None,
               cancelledAt = None,
               confirmedAt = None,
               comingForPickupAt = None,
               pickedUpAt = None,
               droppedOffAt = None,
               completedAt = None\<rparr>
      in if \<not> validNewBooking b then (Inl ServerError, d)
         else (Inr b, d\<lparr>bookings := bookings d @ [b]\<rparr>))"

text \<open>
  \<open>bookRide_save\<close>: \<^verbatim>\<open>ride.save()\<close> after
  \<^verbatim>\<open>ride.availableSeats -= seatsBooked\<close> and \<^verbatim>\<open>ride.passengers.push(...)\<close>. The
  save sends the paths that changed on the document read: the new value of
  \<^verbatim>\<open>availableSeats\<close>, computed from the seat count that was read, and the pushed
  booking reference.
\<close>

definition bookRide_save :: "ride \<Rightarrow> booking \<Rightarrow> db \<Rightarrow> db" where
  "bookRide_save r b d =
     d\<lparr>rides :=
         update_first (\<lambda>x. ride_id x = ride_id r)
           (\<lambda>x. x\<lparr>availableSeats := availableSeats r - seatsBooked b,
                   passengers := passengers x @ [booking_id b]\<rparr>)
           (rides d)\<rparr>"

text \<open>The three steps that follow the read of the ride, run without a break.\<close>

definition bookRide_rest ::
  "objectId \<Rightarrow> bookRideBody \<Rightarrow> ride \<Rightarrow> objectId \<Rightarrow> db \<Rightarrow> (error + booking) \<times> db" where
  "bookRide_rest user body r newId d =
     (case bookRide_findExisting user body r d of
        Inl e \<Rightarrow> (Inl e, d)
      | Inr _ \<Rightarrow>
         (case bookRide_create user body r newId d of
            (Inl e, d1) \<Rightarrow> (Inl e, d1)
          | (Inr b, d1) \<Rightarrow> (Inr b, bookRide_save r b d1)))"

text \<open>
  Two requests that overlap: both read their ride before either goes on; then the first
  runs to its end, then the second. The result is the two answers and the store.
\<close>

definition bookRide_overlapped ::
  "objectId \<Rightarrow> bookRideBody \<Rightarrow> objectId \<Rightarrow> objectId \<Rightarrow> bookRideBody \<Rightarrow> objectId \<Rightarrow> db
     \<Rightarrow> (error + booking) \<times> (error + booking) \<times> db" where
  "bookRide_overlapped user1 body1 newId1 user2 body2 newId2 d =
     (let read1 = bookRide_findRide body1 d;
          read2 = bookRide_findRide body2 d;
          (answer1, d1) = (case read1 of
                             Inl e \<Rightarrow> (Inl e, d)
                           | Inr r \<Rightarrow> bookRide_rest user1 body1 r newId1 d);
          (answer2, d2) = (case read2 of
                             Inl e \<Rightarrow> (Inl e, d1)
                           | Inr r \<Rightarrow> bookRide_rest user2 body2 r newId2 d1)
      in (answer1, answer2, d2))"

text \<open>
  The sample store with its booking picked up: confirmed at time 1, driver on the way at
  2, passenger picked up at 3.
\<close>

definition sample_picked_up_db :: db where
  "sample_picked_up_db =
     (sample_db ''picked-up'')
       \<lparr>bookings := [(sample_booking ''picked-up'')
                       \<lparr>confirmedAt := Some 1, comingForPickupAt := Some 2,
                        pickedUpAt := Some 3\<rparr>]\<rparr>"

section \<open>Whole numbers\<close>

text \<open>
  A whole number that a double holds exactly. On such numbers (and sums of them that stay
  below the bound) the exact arithmetic of the model is the arithmetic of the source.
\<close>

definition whole_number :: "number \<Rightarrow> bool" where
  "whole_number x = (of_int \<lfloor>x\<rfloor> = x \<and> \<bar>x\<bar> < 2 ^ 53)"

definition whole_ratings :: "review list \<Rightarrow> bool" where
  "whole_ratings vs = list_all (\<lambda>v. whole_number (review_rating v)) vs"

section \<open>The remaining writers, and requests in sequence\<close>

subsection \<open>cancelBooking\<close>

text \<open>The query \<^verbatim>\<open>Booking.findOne({ _id: id, passenger: req.user._id })\<close>.\<close>

definition findOwnBooking :: "objectId \<Rightarrow> objectId \<Rightarrow> db \<Rightarrow> booking option" where
  "findOwnBooking i user d = find (\<lambda>b. booking_id b = i \<and> passenger b = user) (bookings d)"

text \<open>
  The handler of \<^verbatim>\<open>PATCH /api/bookings/:id/cancel\<close>: the booking is saved as
  cancelled, then the ride gets its seats back.
\<close>

definition cancelBooking ::
  "objectId \<Rightarrow> objectId \<Rightarrow> string option \<Rightarrow> date \<Rightarrow> db \<Rightarrow> (error + booking) \<times> db" where
  "cancelBooking user i reason now d =
     (case findOwnBooking i user d of
        None \<Rightarrow> (Inl (NotFound ''Booking not found''), d)
      | Some b \<Rightarrow>
         if booking_status b \<notin> set [''pending'', ''confirmed'']
         then (Inl (BadRequest ''Cannot cancel booking in current status''), d)
         else
           let b1 = b\<lparr>booking_status := ''cancelled'',
                      cancelledBy := Some ''passenger'',
                      cancellationReason := reason,
                      cancelledAt := Some now\<rparr>;
               d1 = saveBooking b1 d;
               d2 = d1\<lparr>rides :=
                        update_first (\<lambda>x. ride_id x = booking_ride b1)
                          (\<lambda>x. x\<lparr>availableSeats := availableSeats x + seatsBooked b1,
                                  passengers := removeAll (booking_id b1) (passengers x)\<rparr>)
                          (rides d1)\<rparr>
           in (Inr b1, d2))"

subsection \<open>deleteRide\<close>

definition deleteRide :: "objectId \<Rightarrow> objectId \<Rightarrow> db \<Rightarrow> (error + unit) \<times> db" where
  "deleteRide user i d =
     (case findOwnRide i user d of
        None \<Rightarrow> (Inl (NotFound ''Ride not found''), d)
      | Some r \<Rightarrow>
         if find (\<lambda>b. booking_ride b = i) (bookings d) \<noteq> None
         then (Inl (BadRequest ''Cannot delete ride with bookings. Cancel it instead.''), d)
         else (Inr (), d\<lparr>rides := delete_first (\<lambda>x. ride_id x = i) (rides d)\<rparr>))"

subsection \<open>Requests\<close>

text \<open>
  The requests that write a booking, a ride, a review or a driver profile, with the
  arguments of their handlers. (The handlers of the source that are left out read only,
  or write users, contacts, a new ride or a new profile.) \<open>after q d\<close> is the store
  that the request \<open>q\<close> leaves when it is handled on the store \<open>d\<close>, and \<open>run\<close> handles
  requests one after the other.
\<close>

datatype request =
    BookRide objectId bookRideBody objectId
  | CancelBooking objectId objectId "string option" date
  | RespondToBooking objectId objectId string "string option" date
  | UpdateBookingStatus objectId objectId string date
  | UpdateRideStatus objectId objectId string date
  | UpdateRide objectId objectId rideUpdates
  | DeleteRide objectId objectId
  | CreateReview objectId objectId "number option" "string option" objectId date
  | UpdateReview objectId objectId "number option" "string option" date
  | DeleteReview objectId objectId date

fun after :: "request \<Rightarrow> db \<Rightarrow> db" where
  "after (BookRide user body newId) d = snd (bookRide user body newId d)"
| "after (CancelBooking user i reason now) d = snd (cancelBooking user i reason now d)"
| "after (RespondToBooking user i action note now) d =
     snd (respondToBooking user i action note now d)"
| "after (UpdateBookingStatus user i status now) d = snd (updateBookingStatus user i status now d)"
| "after (UpdateRideStatus user i status now) d = snd (updateRideStatus user i status now d)"
| "after (UpdateRide user i updates) d = snd (updateRide user i updates d)"
| "after (DeleteRide user i) d = snd (deleteRide user i d)"
| "after (CreateReview user bookingId rating cmt newId now) d =
     snd (createReview user bookingId rating cmt newId now d)"
| "after (UpdateReview user i rating cmt now) d = snd (updateReview user i rating cmt now d)"
| "after (DeleteReview user i now) d = snd (deleteReview user i now d)"

fun run :: "request list \<Rightarrow> db \<Rightarrow> db" where
  "run [] d = d"
| "run (q # qs) d = run qs (after q d)"





text \<open>The counters of the driver profiles, profile by profile.\<close>

definition ledger :: "db \<Rightarrow> (objectId \<times> number \<times> number) list" where
  "ledger d = map (\<lambda>p. (profile_user p, totalRides p, totalEarnings p)) (profiles d)"


section \<open>The status table and the answers of updateBookingStatus\<close>

lemma statusFlow_unfold:
  "statusFlow s =
     (if s = ''confirmed'' then Some [''coming-for-pickup'']
      else if s = ''coming-for-pickup'' then Some [''picked-up'']
      else if s = ''picked-up'' then Some [''in-transit'']
      else if s = ''in-transit'' then Some [''dropped-off'']
      else if s = ''dropped-off'' then Some [''completed'']
      else None)"
  by (simp add: statusFlow_def)

lemma statusFlow_allows_iff:
  "(\<exists>a. statusFlow s = Some a \<and> t \<in> set a) \<longleftrightarrow> chain_adjacent s t"
  by (simp add: statusFlow_unfold chain_adjacent_def)

lemma chain_adjacent_valid: "chain_adjacent s t \<Longrightarrow> t \<in> set validStatuses"
  unfolding chain_adjacent_def validStatuses_def by auto

lemma ubs_allowed:
  assumes "findBooking i d = Some b" "findRide (booking_ride b) d = Some r" "driver r = user"
      and "chain_adjacent (booking_status b) status"
  shows "updateBookingStatus user i status now d =
     (let b1 = b\<lparr>booking_status := status\<rparr> in
      if status = ''coming-for-pickup'' then
        (Inr (b1\<lparr>comingForPickupAt := Some now\<rparr>),
         saveBooking (b1\<lparr>comingForPickupAt := Some now\<rparr>) d)
      else if status = ''picked-up'' then
        (Inr (b1\<lparr>pickedUpAt := Some now\<rparr>),
         saveBooking (b1\<lparr>pickedUpAt := Some now\<rparr>) d)
      else if status = ''dropped-off'' then
        (Inr (b1\<lparr>droppedOffAt := Some now\<rparr>),
         saveBooking (b1\<lparr>droppedOffAt := Some now\<rparr>) d)
      else if status = ''completed'' then
        (Inr (b1\<lparr>completedAt := Some now, paymentStatus := ''paid''\<rparr>),
         saveBooking (b1\<lparr>completedAt := Some now, paymentStatus := ''paid''\<rparr>)
           (d\<lparr>profiles :=
               update_first (\<lambda>p. profile_user p = user)
                 (\<lambda>p. p\<lparr>totalRides := totalRides p + 1,
                         totalEarnings := totalEarnings p + totalFare b\<rparr>)
                 (profiles d)\<rparr>))
      else (Inr b1, saveBooking b1 d))"
proof -
  obtain al where al: "statusFlow (booking_status b) = Some al" "status \<in> set al"
    using assms(4) statusFlow_allows_iff by blast
  have v: "status \<in> set validStatuses" using assms(4) by (rule chain_adjacent_valid)
  show ?thesis
    unfolding updateBookingStatus_def Let_def using assms(1-3) al v by simp
qed

lemma ubs_not_allowed:
  assumes "findBooking i d = Some b" "findRide (booking_ride b) d = Some r" "driver r = user"
      and "status \<in> set validStatuses" "\<not> chain_adjacent (booking_status b) status"
  shows "updateBookingStatus user i status now d =
           (Inl (CannotChangeStatus (booking_status b) status
                  (case statusFlow (booking_status b) of None \<Rightarrow> [] | Some a \<Rightarrow> a)), d)"
proof (cases "statusFlow (booking_status b)")
  case None
  then show ?thesis
    unfolding updateBookingStatus_def using assms(1-4) by simp
next
  case (Some a)
  then have "status \<notin> set a"
    using assms(5) statusFlow_allows_iff by blast
  then show ?thesis
    unfolding updateBookingStatus_def using assms(1-4) Some by simp
qed

text \<open>Every way the handler can answer.\<close>

lemma ubs_cases:
  obtains (invalid) "status \<notin> set validStatuses"
      "updateBookingStatus user i status now d = (Inl (InvalidStatus validStatuses), d)"
  | (missing) "status \<in> set validStatuses" "findBooking i d = None"
      "updateBookingStatus user i status now d = (Inl (NotFound ''Booking not found''), d)"
  | (orphan) b where "status \<in> set validStatuses" "findBooking i d = Some b"
      "findRide (booking_ride b) d = None"
      "updateBookingStatus user i status now d = (Inl ServerError, d)"
  | (foreign) b r where "status \<in> set validStatuses" "findBooking i d = Some b"
      "findRide (booking_ride b) d = Some r" "driver r \<noteq> user"
      "updateBookingStatus user i status now d = (Inl (Forbidden ''Not authorized''), d)"
  | (refused) b r where "status \<in> set validStatuses" "findBooking i d = Some b"
      "findRide (booking_ride b) d = Some r" "driver r = user"
      "\<not> chain_adjacent (booking_status b) status"
  | (allowed) b r where "findBooking i d = Some b"
      "findRide (booking_ride b) d = Some r" "driver r = user"
      "chain_adjacent (booking_status b) status"
proof (cases "status \<in> set validStatuses")
  case False
  then show ?thesis using invalid unfolding updateBookingStatus_def by simp
next
  case v: True
  show ?thesis
  proof (cases "findBooking i d")
    case None
    then show ?thesis using missing v unfolding updateBookingStatus_def by simp
  next
    case (Some b)
    note b = this
    show ?thesis
    proof (cases "findRide (booking_ride b) d")
      case None
      then show ?thesis using orphan v b unfolding updateBookingStatus_def by simp
    next
      case (Some r)
      note r = this
      show ?thesis
      proof (cases "driver r = user")
        case False
        then show ?thesis using foreign [OF v b r] v b r unfolding updateBookingStatus_def by simp
      next
        case u: True
        show ?thesis
          using refused [OF v b r u] allowed [OF b r u] by blast
      qed
    qed
  qed
qed

lemma ubs_failure_unchanged:
  assumes "fst (updateBookingStatus user i status now d) = Inl e"
  shows "snd (updateBookingStatus user i status now d) = d"
proof (cases user i status now d rule: ubs_cases)
  case (refused b r)
  then show ?thesis by (simp add: ubs_not_allowed)
next
  case (allowed b r)
  have "\<exists>b'. fst (updateBookingStatus user i status now d) = Inr b'"
    unfolding ubs_allowed [OF allowed] Let_def by simp
  with assms show ?thesis by simp
qed simp_all

lemma ubs_success_D:
  assumes "fst (updateBookingStatus user i status now d) = Inr b'"
  obtains b r where "findBooking i d = Some b" "findRide (booking_ride b) d = Some r"
    "driver r = user" "chain_adjacent (booking_status b) status"
proof (cases user i status now d rule: ubs_cases)
  case (refused b r)
  then show ?thesis using assms by (simp add: ubs_not_allowed)
next
  case (allowed b r)
  then show ?thesis using that by blast
qed (use assms in simp_all)

section \<open>Lemmas about the store\<close>

lemma find_update_first:
  "find P xs = Some x \<Longrightarrow> P (f x) \<Longrightarrow> find P (update_first P f xs) = Some (f x)"
  by (induction xs) (auto split: if_splits)

lemma find_update_first_map:
  "(\<And>x. P (f x) = P x) \<Longrightarrow> find P (update_first P f xs) = map_option f (find P xs)"
  by (induction xs) (auto split: if_splits)

lemma find_update_first_disjoint:
  "(\<And>x. P x \<Longrightarrow> \<not> Q x) \<Longrightarrow> (\<And>x. P x \<Longrightarrow> \<not> Q (f x)) \<Longrightarrow> find Q (update_first P f xs) = find Q xs"
  by (induction xs) (auto split: if_splits)

lemma find_update_first_refine:
  "find Q xs = Some x \<Longrightarrow> Q y \<Longrightarrow> (\<And>z. Q z \<Longrightarrow> P z) \<Longrightarrow>
   find Q (update_first P (\<lambda>_. y) xs) = Some y"
  by (induction xs) (auto split: if_splits)

lemma find_Some_D: "find P xs = Some x \<Longrightarrow> P x"
  by (induction xs) (auto split: if_splits)

lemma findBooking_id: "findBooking i d = Some b \<Longrightarrow> booking_id b = i"
  unfolding findBooking_def by (drule find_Some_D) simp

lemma findBooking_saveBooking:
  assumes "findBooking i d = Some b" "booking_id b' = i"
  shows "findBooking i (saveBooking b' d) = Some b'"
  using find_update_first [of "\<lambda>x. booking_id x = i" "bookings d" b "\<lambda>_. b'"] assms
  unfolding findBooking_def saveBooking_def by simp

section \<open>Status updates follow the chain\<close>

text \<open>
  Claim C1 (as amended). A status update on an existing booking by the driver who owns
  its ride succeeds exactly when the requested status is the successor of the current
  one in the chain. A request naming one of the five progress statuses that is not that
  successor is answered with the current status and the allowed-next list (empty when
  the current status has no successor); a request naming any other status is answered
  with the list of valid options and nothing else. Every failing request leaves the
  store, and so the booking's status, unchanged.
\<close>

theorem updateBookingStatus_follows_chain:
  assumes "findBooking i d = Some b" and "findRide (booking_ride b) d = Some r"
      and "driver r = user"
  shows "((\<exists>b'. fst (updateBookingStatus user i status now d) = Inr b') \<longleftrightarrow>
            chain_adjacent (booking_status b) status) \<and>
         (status \<in> set validStatuses \<and> \<not> chain_adjacent (booking_status b) status \<longrightarrow>
            updateBookingStatus user i status now d =
              (Inl (CannotChangeStatus (booking_status b) status
                     (case statusFlow (booking_status b) of None \<Rightarrow> [] | Some a \<Rightarrow> a)), d)) \<and>
         (status \<in> set validStatuses \<and>
          booking_status b \<in> {''pending'', ''completed'', ''cancelled'', ''rejected''} \<longrightarrow>
            updateBookingStatus user i status now d =
              (Inl (CannotChangeStatus (booking_status b) status []), d)) \<and>
         (status \<notin> set validStatuses \<longrightarrow>
            updateBookingStatus user i status now d = (Inl (InvalidStatus validStatuses), d)) \<and>
         (\<forall>e. fst (updateBookingStatus user i status now d) = Inl e \<longrightarrow>
            snd (updateBookingStatus user i status now d) = d \<and>
            findBooking i (snd (updateBookingStatus user i status now d)) = Some b)"
proof (intro conjI)
  show "(\<exists>b'. fst (updateBookingStatus user i status now d) = Inr b') \<longleftrightarrow>
          chain_adjacent (booking_status b) status"
  proof
    assume "\<exists>b'. fst (updateBookingStatus user i status now d) = Inr b'"
    then obtain b' where "fst (updateBookingStatus user i status now d) = Inr b'" ..
    then obtain b0 r0 where "findBooking i d = Some b0" "chain_adjacent (booking_status b0) status"
      by (rule ubs_success_D)
    with assms(1) show "chain_adjacent (booking_status b) status" by simp
  next
    assume a: "chain_adjacent (booking_status b) status"
    show "\<exists>b'. fst (updateBookingStatus user i status now d) = Inr b'"
      unfolding ubs_allowed [OF assms a] Let_def by simp
  qed
next
  show "status \<in> set validStatuses \<and> \<not> chain_adjacent (booking_status b) status \<longrightarrow>
          updateBookingStatus user i status now d =
            (Inl (CannotChangeStatus (booking_status b) status
                   (case statusFlow (booking_status b) of None \<Rightarrow> [] | Some a \<Rightarrow> a)), d)"
    using ubs_not_allowed [OF assms] by blast
next
  show "status \<in> set validStatuses \<and>
        booking_status b \<in> {''pending'', ''completed'', ''cancelled'', ''rejected''} \<longrightarrow>
          updateBookingStatus user i status now d =
            (Inl (CannotChangeStatus (booking_status b) status []), d)"
  proof
    assume a: "status \<in> set validStatuses \<and>
        booking_status b \<in> {''pending'', ''completed'', ''cancelled'', ''rejected''}"
    then have n: "statusFlow (booking_status b) = None"
      by (auto simp: statusFlow_unfold)
    then have "\<not> chain_adjacent (booking_status b) status"
      using statusFlow_allows_iff [of "booking_status b" status] by simp
    with a n show "updateBookingStatus user i status now d =
            (Inl (CannotChangeStatus (booking_status b) status []), d)"
      using ubs_not_allowed [OF assms, of status now] by simp
  qed
next
  show "status \<notin> set validStatuses \<longrightarrow>
          updateBookingStatus user i status now d = (Inl (InvalidStatus validStatuses), d)"
    unfolding updateBookingStatus_def by simp
next
  show "\<forall>e. fst (updateBookingStatus user i status now d) = Inl e \<longrightarrow>
          snd (updateBookingStatus user i status now d) = d \<and>
          findBooking i (snd (updateBookingStatus user i status now d)) = Some b"
    using ubs_failure_unchanged [of user i status now d] assms(1) by simp
qed

theorem updateBookingStatus_follows_chain_witness:
  "findBooking 100 (sample_db ''confirmed'') = Some (sample_booking ''confirmed'') \<and>
   findRide (booking_ride (sample_booking ''confirmed'')) (sample_db ''confirmed'') =
     Some (sample_ride\<lparr>availableSeats := 1, passengers := [100]\<rparr>) \<and>
   driver (sample_ride\<lparr>availableSeats := 1, passengers := [100]\<rparr>) = 10 \<and>
   updateBookingStatus 10 100 ''picked-up'' 5 (sample_db ''confirmed'') =
     (Inl (CannotChangeStatus ''confirmed'' ''picked-up'' [''coming-for-pickup'']),
      sample_db ''confirmed'') \<and>
   (\<exists>b'. fst (updateBookingStatus 10 100 ''coming-for-pickup'' 5 (sample_db ''confirmed'')) = Inr b')"
proof -
  have b: "findBooking 100 (sample_db ''confirmed'') = Some (sample_booking ''confirmed'')"
    by (simp add: findBooking_def sample_db_def sample_booking_def)
  have r: "findRide (booking_ride (sample_booking ''confirmed'')) (sample_db ''confirmed'') =
     Some (sample_ride\<lparr>availableSeats := 1, passengers := [100]\<rparr>)"
    by (simp add: findRide_def sample_db_def sample_booking_def sample_ride_def)
  have u: "driver (sample_ride\<lparr>availableSeats := 1, passengers := [100]\<rparr>) = 10"
    by (simp add: sample_ride_def)
  have s: "booking_status (sample_booking ''confirmed'') = ''confirmed''"
    by (simp add: sample_booking_def)
  have n: "\<not> chain_adjacent ''confirmed'' ''picked-up''"
    by (simp add: chain_adjacent_def)
  have a: "chain_adjacent ''confirmed'' ''coming-for-pickup''"
    by (simp add: chain_adjacent_def)
  have v: "''picked-up'' \<in> set validStatuses"
    by (simp add: validStatuses_def)
  have f: "statusFlow ''confirmed'' = Some [''coming-for-pickup'']"
    by (simp add: statusFlow_def)
  show ?thesis
    using updateBookingStatus_follows_chain [OF b r u, of "''picked-up''" 5]
          updateBookingStatus_follows_chain [OF b r u, of "''coming-for-pickup''" 5]
          b r u s n a v f
    by simp
qed

text \<open>
  Claim C1 as stated fails: a request that names the backward target \<open>confirmed\<close> for a
  booking in status \<open>picked-up\<close> is refused by the check against the valid options,
  before the booking is read, and the answer carries neither the current status nor the
  allowed-next list.
\<close>

theorem backward_target_counterexample:
  "updateBookingStatus 10 100 ''confirmed'' 5 (sample_db ''picked-up'') =
     (Inl (InvalidStatus validStatuses), sample_db ''picked-up'') \<and>
   fst (updateBookingStatus 10 100 ''confirmed'' 5 (sample_db ''picked-up'')) \<noteq>
     Inl (CannotChangeStatus ''picked-up'' ''confirmed'' [''in-transit''])"
  by (simp add: updateBookingStatus_def validStatuses_def)

section \<open>Effects of a status update\<close>

lemma findProfile_saveBooking [simp]: "findProfile u (saveBooking b d) = findProfile u d"
  by (simp add: findProfile_def saveBooking_def)

lemma profiles_saveBooking [simp]: "profiles (saveBooking b d) = profiles d"
  by (simp add: saveBooking_def)

lemma rides_saveBooking [simp]: "rides (saveBooking b d) = rides d"
  by (simp add: saveBooking_def)

lemma findBooking_profiles_update [simp]:
  "findBooking i (d\<lparr>profiles := ps\<rparr>) = findBooking i d"
  by (simp add: findBooking_def)




lemma ubs_completed:
  assumes "fst (updateBookingStatus user i ''completed'' now d) = Inr b'"
      and "findBooking i d = Some b"
  shows "b' = b\<lparr>booking_status := ''completed'', completedAt := Some now, paymentStatus := ''paid''\<rparr>"
    and "snd (updateBookingStatus user i ''completed'' now d) =
           saveBooking b'
             (d\<lparr>profiles :=
                 update_first (\<lambda>p. profile_user p = user)
                   (\<lambda>p. p\<lparr>totalRides := totalRides p + 1,
                           totalEarnings := totalEarnings p + totalFare b\<rparr>)
                   (profiles d)\<rparr>)"
proof -
  obtain b0 r where h: "findBooking i d = Some b0" "findRide (booking_ride b0) d = Some r"
    "driver r = user" "chain_adjacent (booking_status b0) ''completed''"
    using assms(1) by (rule ubs_success_D)
  have eq: "b0 = b" using h(1) assms(2) by simp
  note step = ubs_allowed [OF h, of now]
  show "b' = b\<lparr>booking_status := ''completed'', completedAt := Some now, paymentStatus := ''paid''\<rparr>"
    using assms(1) unfolding step eq Let_def by simp
  then show "snd (updateBookingStatus user i ''completed'' now d) =
           saveBooking b'
             (d\<lparr>profiles :=
                 update_first (\<lambda>p. profile_user p = user)
                   (\<lambda>p. p\<lparr>totalRides := totalRides p + 1,
                           totalEarnings := totalEarnings p + totalFare b\<rparr>)
                   (profiles d)\<rparr>)"
    unfolding step eq Let_def by simp
qed


section \<open>Timestamps of the progress statuses\<close>

text \<open>
  Claim C6 (as amended). A successful update to \<open>coming-for-pickup\<close>, \<open>picked-up\<close>,
  \<open>dropped-off\<close> or \<open>completed\<close> stamps \<open>comingForPickupAt\<close>, \<open>pickedUpAt\<close>,
  \<open>droppedOffAt\<close> or \<open>completedAt\<close> with the time of the request. A successful update
  to \<open>in-transit\<close> stamps none of the booking's status timestamps (the booking has no
  such field for that status): each of them keeps the value it had. In every case the
  booking has the new status and the booking returned is the booking stored.
\<close>

theorem progress_stamps_timestamp:
  assumes "fst (updateBookingStatus user i status now d) = Inr b'"
  shows "(status = ''coming-for-pickup'' \<longrightarrow> comingForPickupAt b' = Some now) \<and>
         (status = ''picked-up'' \<longrightarrow> pickedUpAt b' = Some now) \<and>
         (status = ''dropped-off'' \<longrightarrow> droppedOffAt b' = Some now) \<and>
         (status = ''completed'' \<longrightarrow> completedAt b' = Some now) \<and>
         (status = ''in-transit'' \<longrightarrow>
            (\<exists>b. findBooking i d = Some b \<and>
                 confirmedAt b' = confirmedAt b \<and>
                 comingForPickupAt b' = comingForPickupAt b \<and>
                 pickedUpAt b' = pickedUpAt b \<and>
                 droppedOffAt b' = droppedOffAt b \<and>
                 completedAt b' = completedAt b \<and>
                 cancelledAt b' = cancelledAt b)) \<and>
         booking_status b' = status \<and>
         findBooking i (snd (updateBookingStatus user i status now d)) = Some b'"
proof -
  obtain b r where h: "findBooking i d = Some b" "findRide (booking_ride b) d = Some r"
    "driver r = user" "chain_adjacent (booking_status b) status"
    using assms by (rule ubs_success_D)
  note step = ubs_allowed [OF h, of now]
  have id: "booking_id b = i" using h(1) by (rule findBooking_id)
  have b': "b' = (let b1 = b\<lparr>booking_status := status\<rparr> in
      if status = ''coming-for-pickup'' then b1\<lparr>comingForPickupAt := Some now\<rparr>
      else if status = ''picked-up'' then b1\<lparr>pickedUpAt := Some now\<rparr>
      else if status = ''dropped-off'' then b1\<lparr>droppedOffAt := Some now\<rparr>
      else if status = ''completed'' then b1\<lparr>completedAt := Some now, paymentStatus := ''paid''\<rparr>
      else b1)"
    using assms unfolding step Let_def by (simp split: if_splits)
  have id': "booking_id b' = i"
    unfolding b' Let_def using id by simp
  have "findBooking i (snd (updateBookingStatus user i status now d)) = Some b'"
  proof (cases "status = ''completed''")
    case True
    have "findBooking i (d\<lparr>profiles :=
                 update_first (\<lambda>p. profile_user p = user)
                   (\<lambda>p. p\<lparr>totalRides := totalRides p + 1,
                           totalEarnings := totalEarnings p + totalFare b\<rparr>)
                   (profiles d)\<rparr>) = Some b"
      using h(1) by simp
    then show ?thesis
      using id' unfolding True ubs_completed(2) [OF assms [unfolded True] h(1)]
      by (rule findBooking_saveBooking)
  next
    case False
    then have "snd (updateBookingStatus user i status now d) = saveBooking b' d"
      unfolding step b' Let_def by simp
    then show ?thesis
      using h(1) id' by (simp add: findBooking_saveBooking)
  qed
  moreover have "booking_status b' = status"
    unfolding b' Let_def by simp
  moreover have "status = ''coming-for-pickup'' \<longrightarrow> comingForPickupAt b' = Some now"
    unfolding b' Let_def by simp
  moreover have "status = ''picked-up'' \<longrightarrow> pickedUpAt b' = Some now"
    unfolding b' Let_def by simp
  moreover have "status = ''dropped-off'' \<longrightarrow> droppedOffAt b' = Some now"
    unfolding b' Let_def by simp
  moreover have "status = ''completed'' \<longrightarrow> completedAt b' = Some now"
    unfolding b' Let_def by simp
  moreover have "status = ''in-transit'' \<longrightarrow>
            (\<exists>b. findBooking i d = Some b \<and>
                 confirmedAt b' = confirmedAt b \<and>
                 comingForPickupAt b' = comingForPickupAt b \<and>
                 pickedUpAt b' = pickedUpAt b \<and>
                 droppedOffAt b' = droppedOffAt b \<and>
                 completedAt b' = completedAt b \<and>
                 cancelledAt b' = cancelledAt b)"
    unfolding b' Let_def using h(1) by simp
  ultimately show ?thesis by blast
qed

theorem progress_stamps_timestamp_witness:
  "fst (updateBookingStatus 10 100 ''picked-up'' 7 (sample_db ''coming-for-pickup'')) =
     Inr ((sample_booking ''picked-up'')\<lparr>pickedUpAt := Some 7\<rparr>) \<and>
   pickedUpAt ((sample_booking ''picked-up'')\<lparr>pickedUpAt := Some 7\<rparr>) = Some 7 \<and>
   findBooking 100 (snd (updateBookingStatus 10 100 ''picked-up'' 7 (sample_db ''coming-for-pickup''))) =
     Some ((sample_booking ''picked-up'')\<lparr>pickedUpAt := Some 7\<rparr>)"
proof -
  have ok: "fst (updateBookingStatus 10 100 ''picked-up'' 7 (sample_db ''coming-for-pickup'')) =
     Inr ((sample_booking ''picked-up'')\<lparr>pickedUpAt := Some 7\<rparr>)"
    by (simp add: updateBookingStatus_def validStatuses_def statusFlow_def findBooking_def
        findRide_def sample_db_def sample_booking_def sample_ride_def Let_def)
  show ?thesis
    using progress_stamps_timestamp [OF ok] ok by simp
qed

text \<open>
  Claim C6 as stated fails for the transition from \<open>picked-up\<close> to \<open>in-transit\<close>. The
  booking was confirmed at time 1, the driver set out at 2 and picked the passenger up
  at 3. The update to \<open>in-transit\<close> at time 77 succeeds, the booking is stored with the
  new status, and its status timestamps are the three it had: none records the time 77.
\<close>

theorem in_transit_unstamped_counterexample:
  "\<not> isl (fst (updateBookingStatus 10 100 ''in-transit'' 77 sample_picked_up_db)) \<and>
   map_option booking_status
     (findBooking 100 (snd (updateBookingStatus 10 100 ''in-transit'' 77 sample_picked_up_db))) =
     Some ''in-transit'' \<and>
   map_option confirmedAt
     (findBooking 100 (snd (updateBookingStatus 10 100 ''in-transit'' 77 sample_picked_up_db))) =
     Some (Some 1) \<and>
   map_option comingForPickupAt
     (findBooking 100 (snd (updateBookingStatus 10 100 ''in-transit'' 77 sample_picked_up_db))) =
     Some (Some 2) \<and>
   map_option pickedUpAt
     (findBooking 100 (snd (updateBookingStatus 10 100 ''in-transit'' 77 sample_picked_up_db))) =
     Some (Some 3) \<and>
   map_option droppedOffAt
     (findBooking 100 (snd (updateBookingStatus 10 100 ''in-transit'' 77 sample_picked_up_db))) =
     Some None \<and>
   map_option completedAt
     (findBooking 100 (snd (updateBookingStatus 10 100 ''in-transit'' 77 sample_picked_up_db))) =
     Some None \<and>
   map_option cancelledAt
     (findBooking 100 (snd (updateBookingStatus 10 100 ''in-transit'' 77 sample_picked_up_db))) =
     Some None"
  by (simp add: updateBookingStatus_def validStatuses_def statusFlow_def findBooking_def
      findRide_def saveBooking_def sample_picked_up_db_def sample_db_def sample_booking_def
      sample_ride_def Let_def)

section \<open>Ride cancellation\<close>

lemma findOwnRide_D:
  "findOwnRide i user d = Some r \<Longrightarrow> ride_id r = i \<and> driver r = user"
  unfolding findOwnRide_def by (drule find_Some_D) simp

lemma findOwnRide_saveRide:
  assumes "findOwnRide i user d = Some r" "ride_id r' = i" "driver r' = user"
  shows "findOwnRide i user (saveRide r' d) = Some r'"
proof -
  have "find (\<lambda>x. ride_id x = i \<and> driver x = user)
          (update_first (\<lambda>x. ride_id x = i) (\<lambda>_. r') (rides d)) = Some r'"
    using assms unfolding findOwnRide_def
    by (intro find_update_first_refine [where x = r]) simp_all
  then show ?thesis
    unfolding findOwnRide_def saveRide_def using assms(2) by simp
qed

lemma bookings_saveRide [simp]: "bookings (saveRide r d) = bookings d"
  by (simp add: saveRide_def)

lemma findOwnRide_bookings_update [simp]:
  "findOwnRide i user (d\<lparr>bookings := bs\<rparr>) = findOwnRide i user d"
  by (simp add: findOwnRide_def)

text \<open>
  Claim C4. When the owning driver sets a ride to \<open>cancelled\<close>, the request succeeds and
  in the resulting store every booking on that ride that was \<open>pending\<close> or \<open>confirmed\<close>
  is \<open>cancelled\<close> with \<open>cancelledBy = driver\<close> and the time of the request, whoever its
  passenger is; every other booking is as before; and the ride is stored with its new
  status and the \<open>availableSeats\<close> it had.
\<close>

theorem ride_cancellation_cascades:
  assumes "findOwnRide i user d = Some r"
  shows "fst (updateRideStatus user i ''cancelled'' now d) = Inr (r\<lparr>ride_status := ''cancelled''\<rparr>) \<and>
         length (bookings (snd (updateRideStatus user i ''cancelled'' now d))) = length (bookings d) \<and>
         (\<forall>k < length (bookings d).
            bookings (snd (updateRideStatus user i ''cancelled'' now d)) ! k =
              (if booking_ride (bookings d ! k) = i \<and>
                  booking_status (bookings d ! k) \<in> {''pending'', ''confirmed''}
               then (bookings d ! k)\<lparr>booking_status := ''cancelled'',
                                      cancelledBy := Some ''driver'',
                                      cancelledAt := Some now\<rparr>
               else bookings d ! k)) \<and>
         findOwnRide i user (snd (updateRideStatus user i ''cancelled'' now d)) =
           Some (r\<lparr>ride_status := ''cancelled''\<rparr>) \<and>
         availableSeats (r\<lparr>ride_status := ''cancelled''\<rparr>) = availableSeats r"
proof -
  have v: "''cancelled'' \<in> set validRideStatuses"
    by (simp add: validRideStatuses_def)
  have run: "updateRideStatus user i ''cancelled'' now d =
      (Inr (r\<lparr>ride_status := ''cancelled''\<rparr>),
       (saveRide (r\<lparr>ride_status := ''cancelled''\<rparr>) d)
         \<lparr>bookings :=
            update_many
              (\<lambda>b. booking_ride b = i \<and> booking_status b \<in> set [''pending'', ''confirmed''])
              (\<lambda>b. b\<lparr>booking_status := ''cancelled'', cancelledBy := Some ''driver'',
                      cancelledAt := Some now\<rparr>)
              (bookings d)\<rparr>)"
    unfolding updateRideStatus_def Let_def using assms v by simp
  have own: "ride_id r = i" "driver r = user"
    using findOwnRide_D [OF assms] by simp_all
  have "findOwnRide i user (saveRide (r\<lparr>ride_status := ''cancelled''\<rparr>) d) =
          Some (r\<lparr>ride_status := ''cancelled''\<rparr>)"
    using assms own by (intro findOwnRide_saveRide) simp_all
  then show ?thesis
    unfolding run by (simp add: update_many_def)
qed

theorem ride_cancellation_cascades_witness:
  "findOwnRide 1 10 (sample_db ''confirmed'') =
     Some (sample_ride\<lparr>availableSeats := 1, passengers := [100]\<rparr>) \<and>
   bookings (snd (updateRideStatus 10 1 ''cancelled'' 9 (sample_db ''confirmed''))) =
     [(sample_booking ''cancelled'')\<lparr>cancelledBy := Some ''driver'', cancelledAt := Some 9\<rparr>] \<and>
   findOwnRide 1 10 (snd (updateRideStatus 10 1 ''cancelled'' 9 (sample_db ''confirmed''))) =
     Some (sample_ride\<lparr>availableSeats := 1, passengers := [100], ride_status := ''cancelled''\<rparr>)"
proof -
  have r: "findOwnRide 1 10 (sample_db ''confirmed'') =
     Some (sample_ride\<lparr>availableSeats := 1, passengers := [100]\<rparr>)"
    by (simp add: findOwnRide_def sample_db_def sample_ride_def)
  have b: "bookings (sample_db ''confirmed'') = [sample_booking ''confirmed'']"
    by (simp add: sample_db_def)
  have c: "(sample_booking ''confirmed'')\<lparr>booking_status := ''cancelled''\<rparr> = sample_booking ''cancelled''"
          "booking_ride (sample_booking ''confirmed'') = 1"
          "booking_status (sample_booking ''confirmed'') = ''confirmed''"
    by (simp_all add: sample_booking_def)
  have "\<And>xs y. length xs = Suc 0 \<Longrightarrow> xs ! 0 = y \<Longrightarrow> xs = [y::booking]"
    by (case_tac xs) simp_all
  then show ?thesis
    using ride_cancellation_cascades [OF r, of 9] r b c by simp
qed

section \<open>Ride updates\<close>

lemma assign_simps [simp]: "assign None old = old" "assign (Some v) old = v"
  by (simp_all add: assign_def)

text \<open>
  Claim C7 at a failing input. The ride of the sample store has one booking, in status
  \<open>in-transit\<close>: a confirmed-or-later state. The update of the ride's capacity to 2
  seats succeeds all the same, and the ride is stored with 2 total and 2 available
  seats: the handler looks for bookings in status \<open>confirmed\<close> or \<open>completed\<close> only.
\<close>

theorem updateRide_ignores_in_transit_booking:
  "booking_ride (sample_booking ''in-transit'') = 1 \<and>
   booking_status (sample_booking ''in-transit'') = ''in-transit'' \<and>
   bookings (sample_db ''in-transit'') = [sample_booking ''in-transit''] \<and>
   updateRide 10 1
     \<lparr>upd_departureDate = None, upd_departureTime = None, upd_totalSeats = Some 2,
      upd_farePerSeat = None, upd_preferences = None, upd_description = None,
      upd_stops = None\<rparr>
     (sample_db ''in-transit'') =
     (Inr (sample_ride\<lparr>totalSeats := 2, availableSeats := 2, passengers := [100]\<rparr>),
      (sample_db ''in-transit'')
        \<lparr>rides := [sample_ride\<lparr>totalSeats := 2, availableSeats := 2, passengers := [100]\<rparr>]\<rparr>)"
  by (simp add: updateRide_def findOwnRide_def saveRide_def validRideChange_def Let_def
      sample_db_def sample_booking_def sample_ride_def)

text \<open>
  Claim C8. Whenever \<open>updateRide\<close> succeeds on a request that carries a (non-zero)
  \<open>totalSeats\<close>, the ride stored and returned has \<open>availableSeats\<close> equal to that
  value, whatever bookings the ride has. And it does succeed for the ride's owner when
  no booking on the ride is \<open>confirmed\<close> or \<open>completed\<close>, the value is between 1 and 8
  and the request carries nothing else: pending bookings neither block the update nor
  enter the new seat count.
\<close>

theorem updateRide_resets_availableSeats:
  "(fst (updateRide user i updates d) = Inr r' \<and> upd_totalSeats updates = Some n \<and> n \<noteq> 0 \<longrightarrow>
      availableSeats r' = n \<and> totalSeats r' = n \<and>
      findOwnRide i user (snd (updateRide user i updates d)) = Some r') \<and>
   (findOwnRide i user d = Some r \<and>
    find (\<lambda>b. booking_ride b = i \<and> booking_status b \<in> set [''confirmed'', ''completed''])
      (bookings d) = None \<and>
    1 \<le> n \<and> n \<le> 8 \<longrightarrow>
      updateRide user i
        \<lparr>upd_departureDate = None, upd_departureTime = None, upd_totalSeats = Some n,
         upd_farePerSeat = None, upd_preferences = None, upd_description = None,
         upd_stops = None\<rparr> d =
        (Inr (r\<lparr>totalSeats := n, availableSeats := n\<rparr>),
         saveRide (r\<lparr>totalSeats := n, availableSeats := n\<rparr>) d))"
proof (intro conjI impI)
  assume a: "fst (updateRide user i updates d) = Inr r' \<and> upd_totalSeats updates = Some n \<and> n \<noteq> 0"
  then have ok: "fst (updateRide user i updates d) = Inr r'"
    and ts: "upd_totalSeats updates = Some n" and nz: "n \<noteq> 0" by blast+
  from ok obtain r where r: "findOwnRide i user d = Some r"
    unfolding updateRide_def by (cases "findOwnRide i user d") simp_all
  have own: "ride_id r = i" "driver r = user"
    using findOwnRide_D [OF r] by simp_all
  let ?r2 = "r\<lparr>departureDate := assign (upd_departureDate updates) (departureDate r),
               departureTime := assign (upd_departureTime updates) (departureTime r),
               totalSeats := n,
               farePerSeat := assign (upd_farePerSeat updates) (farePerSeat r),
               preferences := assign (upd_preferences updates) (preferences r),
               description := assign (upd_description updates) (description r),
               stops := assign (upd_stops updates) (stops r),
               availableSeats := n\<rparr>"
  have res: "updateRide user i updates d = (Inr ?r2, saveRide ?r2 d)" and r': "r' = ?r2"
    using ok r unfolding updateRide_def Let_def ts using nz by (simp_all split: if_splits)
  show "availableSeats r' = n" "totalSeats r' = n"
    unfolding r' by simp_all
  show "findOwnRide i user (snd (updateRide user i updates d)) = Some r'"
    unfolding res r' using r own by (simp add: findOwnRide_saveRide)
next
  assume a: "findOwnRide i user d = Some r \<and>
    find (\<lambda>b. booking_ride b = i \<and> booking_status b \<in> set [''confirmed'', ''completed''])
      (bookings d) = None \<and> 1 \<le> n \<and> n \<le> 8"
  then have "n \<noteq> 0" by auto
  with a show "updateRide user i
        \<lparr>upd_departureDate = None, upd_departureTime = None, upd_totalSeats = Some n,
         upd_farePerSeat = None, upd_preferences = None, upd_description = None,
         upd_stops = None\<rparr> d =
        (Inr (r\<lparr>totalSeats := n, availableSeats := n\<rparr>),
         saveRide (r\<lparr>totalSeats := n, availableSeats := n\<rparr>) d)"
    unfolding updateRide_def Let_def validRideChange_def by simp
qed

theorem updateRide_resets_availableSeats_witness:
  "seatsBooked (sample_booking ''pending'') = 3 \<and>
   findOwnRide 1 10 (sample_db ''pending'') =
     Some (sample_ride\<lparr>availableSeats := 1, passengers := [100]\<rparr>) \<and>
   fst (updateRide 10 1
     \<lparr>upd_departureDate = None, upd_departureTime = None, upd_totalSeats = Some 4,
      upd_farePerSeat = None, upd_preferences = None, upd_description = None,
      upd_stops = None\<rparr>
     (sample_db ''pending'')) =
     Inr (sample_ride\<lparr>totalSeats := 4, availableSeats := 4, passengers := [100]\<rparr>) \<and>
   availableSeats (sample_ride\<lparr>totalSeats := 4, availableSeats := 4, passengers := [100]\<rparr>) = 4"
proof -
  have r: "findOwnRide 1 10 (sample_db ''pending'') =
     Some (sample_ride\<lparr>availableSeats := 1, passengers := [100]\<rparr>)"
    by (simp add: findOwnRide_def sample_db_def sample_ride_def)
  have n: "find (\<lambda>b. booking_ride b = 1 \<and> booking_status b \<in> set [''confirmed'', ''completed''])
      (bookings (sample_db ''pending'')) = None"
    by (simp add: sample_db_def sample_booking_def)
  have s: "seatsBooked (sample_booking ''pending'') = 3"
    by (simp add: sample_booking_def)
  have e: "(sample_ride\<lparr>availableSeats := 1, passengers := [100]\<rparr>)\<lparr>totalSeats := 4, availableSeats := 4\<rparr>
            = sample_ride\<lparr>totalSeats := 4, availableSeats := 4, passengers := [100]\<rparr>"
    by (simp add: sample_ride_def)
  show ?thesis
    using updateRide_resets_availableSeats
      [of 10 1 "\<lparr>upd_departureDate = None, upd_departureTime = None, upd_totalSeats = Some 4,
      upd_farePerSeat = None, upd_preferences = None, upd_description = None,
      upd_stops = None\<rparr>" "sample_db ''pending''"
       "sample_ride\<lparr>totalSeats := 4, availableSeats := 4, passengers := [100]\<rparr>" 4
       "sample_ride\<lparr>availableSeats := 1, passengers := [100]\<rparr>"]
      r n s e
    by simp
qed

section \<open>The rating recompute\<close>

lemma fold_sum_ratings:
  "fold (\<lambda>r sum. sum + review_rating r) rs a = a + sum_list (map review_rating rs)"
  by (induction rs arbitrary: a) simp_all

lemma reviews_updateDriverRating [simp]: "reviews (updateDriverRating u d) = reviews d"
  by (simp add: updateDriverRating_def Let_def)

lemma driverReviews_updateDriverRating [simp]:
  "driverReviews u' (updateDriverRating u d) = driverReviews u' d"
  by (simp add: driverReviews_def)

lemma updateDriverRating_empty:
  "driverReviews u d = [] \<Longrightarrow> updateDriverRating u d = d"
  by (simp add: updateDriverRating_def)

lemma findProfile_updateDriverRating_other:
  "u' \<noteq> u \<Longrightarrow> findProfile u' (updateDriverRating u d) = findProfile u' d"
  unfolding findProfile_def updateDriverRating_def Let_def
  by (simp, intro impI, rule find_update_first_disjoint) simp_all

lemma findProfile_updateDriverRating:
  assumes "driverReviews u d \<noteq> []"
  shows "findProfile u (updateDriverRating u d) =
           map_option (\<lambda>p. p\<lparr>profile_rating :=
               the (spec_mean_rating (map review_rating (driverReviews u d)))\<rparr>)
             (findProfile u d)"
proof -
  have "find (\<lambda>p. profile_user p = u)
          (update_first (\<lambda>p. profile_user p = u)
             (\<lambda>p. p\<lparr>profile_rating :=
                 the (spec_mean_rating (map review_rating (driverReviews u d)))\<rparr>) (profiles d)) =
        map_option (\<lambda>p. p\<lparr>profile_rating :=
               the (spec_mean_rating (map review_rating (driverReviews u d)))\<rparr>)
          (find (\<lambda>p. profile_user p = u) (profiles d))"
    by (rule find_update_first_map) simp
  then show ?thesis
    using assms unfolding findProfile_def updateDriverRating_def Let_def spec_mean_rating_def
      math_round_def
    by (simp add: fold_sum_ratings)
qed

lemma stored_rating_is_mean:
  assumes "driverReviews u d \<noteq> []" "findProfile u (updateDriverRating u d) = Some p"
  shows "Some (profile_rating p) = spec_mean_rating (map review_rating (driverReviews u d))"
proof -
  have "spec_mean_rating (map review_rating (driverReviews u d)) \<noteq> None"
    using assms(1) by (simp add: spec_mean_rating_def)
  then show ?thesis
    using assms(2) unfolding findProfile_updateDriverRating [OF assms(1)] by auto
qed

section \<open>Review requests and the stored rating\<close>

text \<open>
  The store a review request leaves: unchanged on a failure, and on a success the
  written collection followed by the recompute for a passenger-to-driver review.
\<close>

lemma createReview_shape:
  "(case createReview user bookingId rating cmt newId now d of
      (Inl e, d') \<Rightarrow> d' = d
    | (Inr v, d') \<Rightarrow>
        isVisible v \<and>
        d' = (if reviewType v = ''passenger-to-driver''
              then updateDriverRating (reviewee v) (d\<lparr>reviews := reviews d @ [v]\<rparr>)
              else d\<lparr>reviews := reviews d @ [v]\<rparr>))"
  unfolding createReview_def Let_def
  by (simp split: option.split)

lemma updateReview_shape:
  "(case updateReview user i rating cmt now d of
      (Inl e, d') \<Rightarrow> d' = d
    | (Inr v, d') \<Rightarrow>
        d' = (if reviewType v = ''passenger-to-driver''
              then updateDriverRating (reviewee v) (saveReview v d)
              else saveReview v d))"
  unfolding updateReview_def Let_def
  by (simp split: option.split)

lemma deleteReview_shape:
  "(case deleteReview user i now d of
      (Inl e, d') \<Rightarrow> d' = d
    | (Inr u, d') \<Rightarrow>
        d' = (case findOwnReview i user d of
                None \<Rightarrow> d
              | Some v \<Rightarrow>
                  if reviewType v = ''passenger-to-driver''
                  then updateDriverRating (reviewee v)
                         (d\<lparr>reviews := delete_first (\<lambda>x. review_id x = i) (reviews d)\<rparr>)
                  else d\<lparr>reviews := delete_first (\<lambda>x. review_id x = i) (reviews d)\<rparr>))"
  unfolding deleteReview_def Let_def
  by (simp split: option.split)

lemma createReview_success:
  assumes "fst (createReview user bookingId rating cmt newId now d) = Inr v"
  shows "isVisible v"
    and "snd (createReview user bookingId rating cmt newId now d) =
           (if reviewType v = ''passenger-to-driver''
            then updateDriverRating (reviewee v) (d\<lparr>reviews := reviews d @ [v]\<rparr>)
            else d\<lparr>reviews := reviews d @ [v]\<rparr>)"
  using assms createReview_shape [where user = user and bookingId = bookingId and rating = rating and cmt = cmt and newId = newId and now = now and d = d]
  by (cases "createReview user bookingId rating cmt newId now d", simp)+

lemma updateReview_success:
  assumes "fst (updateReview user i rating cmt now d) = Inr v"
  shows "snd (updateReview user i rating cmt now d) =
           (if reviewType v = ''passenger-to-driver''
            then updateDriverRating (reviewee v) (saveReview v d)
            else saveReview v d)"
  using assms updateReview_shape [where user = user and i = i and rating = rating and cmt = cmt and now = now and d = d]
  by (cases "updateReview user i rating cmt now d") simp

lemma deleteReview_success:
  assumes "fst (deleteReview user i now d) = Inr u" "findOwnReview i user d = Some v"
  shows "snd (deleteReview user i now d) =
           (if reviewType v = ''passenger-to-driver''
            then updateDriverRating (reviewee v)
                   (d\<lparr>reviews := delete_first (\<lambda>x. review_id x = i) (reviews d)\<rparr>)
            else d\<lparr>reviews := delete_first (\<lambda>x. review_id x = i) (reviews d)\<rparr>)"
  using assms deleteReview_shape [where user = user and i = i and now = now and d = d]
  by (cases "deleteReview user i now d") simp

lemma recomputed_rating_is_mean:
  assumes "d' = updateDriverRating u d1" "driverReviews u d' \<noteq> []" "findProfile u d' = Some p"
  shows "Some (profile_rating p) = spec_mean_rating (map review_rating (driverReviews u d'))"
  using assms stored_rating_is_mean [of u d1 p] by simp

text \<open>
  Claim C10. A recompute for a driver with no visible passenger-to-driver review leaves
  the store as it is. In particular, when \<open>deleteReview\<close> removes a review and its
  reviewee is then left with no such review, every driver profile, the reviewee's rating
  included, is what it was before the deletion.
\<close>

theorem recompute_on_no_reviews_keeps_rating:
  "(driverReviews u d = [] \<longrightarrow> updateDriverRating u d = d) \<and>
   (fst (deleteReview user i now d) = Inr x \<and> findOwnReview i user d = Some v \<and>
    driverReviews (reviewee v) (snd (deleteReview user i now d)) = [] \<longrightarrow>
      profiles (snd (deleteReview user i now d)) = profiles d)"
proof (intro conjI impI)
  assume "driverReviews u d = []"
  then show "updateDriverRating u d = d" by (rule updateDriverRating_empty)
next
  assume a: "fst (deleteReview user i now d) = Inr x \<and> findOwnReview i user d = Some v \<and>
    driverReviews (reviewee v) (snd (deleteReview user i now d)) = []"
  let ?d1 = "d\<lparr>reviews := delete_first (\<lambda>x. review_id x = i) (reviews d)\<rparr>"
  from a have s: "snd (deleteReview user i now d) =
      (if reviewType v = ''passenger-to-driver''
       then updateDriverRating (reviewee v) ?d1 else ?d1)"
    using deleteReview_success by blast
  show "profiles (snd (deleteReview user i now d)) = profiles d"
  proof (cases "reviewType v = ''passenger-to-driver''")
    case True
    with a s have "driverReviews (reviewee v) ?d1 = []" by simp
    then have "updateDriverRating (reviewee v) ?d1 = ?d1" by (rule updateDriverRating_empty)
    with s True show ?thesis by simp
  next
    case False
    with s show ?thesis by simp
  qed
qed

lemmas sample_review_simps =
  deleteReview_def findOwnReview_def hoursAgo_def updateDriverRating_def driverReviews_def
  findProfile_def sample_review_db_def sample_review_def sample_profile_def Let_def

theorem recompute_on_no_reviews_keeps_rating_witness:
  "fst (deleteReview 21 1 1000 (sample_review_db 5 [sample_review 1 5])) = Inr () \<and>
   findOwnReview 1 21 (sample_review_db 5 [sample_review 1 5]) = Some (sample_review 1 5) \<and>
   driverReviews 10 (snd (deleteReview 21 1 1000 (sample_review_db 5 [sample_review 1 5]))) = [] \<and>
   profiles (snd (deleteReview 21 1 1000 (sample_review_db 5 [sample_review 1 5]))) =
     [sample_profile\<lparr>profile_rating := 5\<rparr>]"
proof -
  have ok: "fst (deleteReview 21 1 1000 (sample_review_db 5 [sample_review 1 5])) = Inr ()"
    by (simp add: sample_review_simps)
  have own: "findOwnReview 1 21 (sample_review_db 5 [sample_review 1 5]) = Some (sample_review 1 5)"
    by (simp add: sample_review_simps)
  have e: "driverReviews (reviewee (sample_review 1 5))
             (snd (deleteReview 21 1 1000 (sample_review_db 5 [sample_review 1 5]))) = []"
    by (simp add: sample_review_simps)
  have w: "reviewee (sample_review 1 5) = 10"
    by (simp add: sample_review_def)
  have p: "profiles (sample_review_db 5 [sample_review 1 5]) = [sample_profile\<lparr>profile_rating := 5\<rparr>]"
    by (simp add: sample_review_db_def)
  show ?thesis
    using recompute_on_no_reviews_keeps_rating
      [of 10 "sample_review_db 5 [sample_review 1 5]" 21 1 1000 "()" "sample_review 1 5"]
      ok own e w p
    by simp
qed

section \<open>The stored rating after a review request\<close>

lemma mean_5_4_3: "spec_mean_rating [5, 4, 3] = Some 4"
  by (simp add: spec_mean_rating_def floor_eq_iff)

lemma mean_5_5_4_4_4: "spec_mean_rating [5, 5, 4, 4, 4] = Some (22 / 5)"
  by (simp add: spec_mean_rating_def floor_eq_iff)

text \<open>
  Claim C5 (as amended). After a successful create, update or delete of a
  passenger-to-driver review, if the driver still has at least one visible
  passenger-to-driver review and the ratings of these reviews are whole numbers, the
  rating stored on the driver's profile is the mean of the ratings of exactly those
  reviews, as they are in the store after the request, rounded to one decimal place.
  (A created review is visible, so after a create there always is one.) If after an
  update or a delete the driver has no such review left, the profiles are what they were
  before the request. A recompute over the ratings 5, 4, 3 stores 4, and over
  5, 5, 4, 4, 4 stores 4.4.
\<close>

theorem stored_rating_is_mean_of_visible_reviews:
  "(fst (createReview user bookingId rating cmt newId now d) = Inr v \<and>
    reviewType v = ''passenger-to-driver'' \<and>
    whole_ratings
      (driverReviews (reviewee v) (snd (createReview user bookingId rating cmt newId now d))) \<and>
    findProfile (reviewee v) (snd (createReview user bookingId rating cmt newId now d)) = Some p \<longrightarrow>
      driverReviews (reviewee v) (snd (createReview user bookingId rating cmt newId now d)) \<noteq> [] \<and>
      Some (profile_rating p) =
        spec_mean_rating (map review_rating
          (driverReviews (reviewee v) (snd (createReview user bookingId rating cmt newId now d))))) \<and>
   (fst (updateReview user i rating cmt now d) = Inr v \<and>
    reviewType v = ''passenger-to-driver'' \<and>
    driverReviews (reviewee v) (snd (updateReview user i rating cmt now d)) \<noteq> [] \<and>
    whole_ratings (driverReviews (reviewee v) (snd (updateReview user i rating cmt now d))) \<and>
    findProfile (reviewee v) (snd (updateReview user i rating cmt now d)) = Some p \<longrightarrow>
      Some (profile_rating p) =
        spec_mean_rating (map review_rating
          (driverReviews (reviewee v) (snd (updateReview user i rating cmt now d))))) \<and>
   (fst (deleteReview user i now d) = Inr x \<and> findOwnReview i user d = Some v \<and>
    reviewType v = ''passenger-to-driver'' \<and>
    driverReviews (reviewee v) (snd (deleteReview user i now d)) \<noteq> [] \<and>
    whole_ratings (driverReviews (reviewee v) (snd (deleteReview user i now d))) \<and>
    findProfile (reviewee v) (snd (deleteReview user i now d)) = Some p \<longrightarrow>
      Some (profile_rating p) =
        spec_mean_rating (map review_rating
          (driverReviews (reviewee v) (snd (deleteReview user i now d))))) \<and>
   (fst (updateReview user i rating cmt now d) = Inr v \<and>
    driverReviews (reviewee v) (snd (updateReview user i rating cmt now d)) = [] \<longrightarrow>
      profiles (snd (updateReview user i rating cmt now d)) = profiles d) \<and>
   (fst (deleteReview user i now d) = Inr x \<and> findOwnReview i user d = Some v \<and>
    driverReviews (reviewee v) (snd (deleteReview user i now d)) = [] \<longrightarrow>
      profiles (snd (deleteReview user i now d)) = profiles d) \<and>
   (map review_rating (driverReviews u d) = [5, 4, 3] \<and> findProfile u d = Some p \<longrightarrow>
      findProfile u (updateDriverRating u d) = Some (p\<lparr>profile_rating := 4\<rparr>)) \<and>
   (map review_rating (driverReviews u d) = [5, 5, 4, 4, 4] \<and> findProfile u d = Some p \<longrightarrow>
      findProfile u (updateDriverRating u d) = Some (p\<lparr>profile_rating := 22 / 5\<rparr>))"
proof (intro conjI impI)
  assume a: "fst (createReview user bookingId rating cmt newId now d) = Inr v \<and>
    reviewType v = ''passenger-to-driver'' \<and>
    whole_ratings
      (driverReviews (reviewee v) (snd (createReview user bookingId rating cmt newId now d))) \<and>
    findProfile (reviewee v) (snd (createReview user bookingId rating cmt newId now d)) = Some p"
  then have vis: "isVisible v"
    and s: "snd (createReview user bookingId rating cmt newId now d) =
              updateDriverRating (reviewee v) (d\<lparr>reviews := reviews d @ [v]\<rparr>)"
    using createReview_success [of user bookingId rating cmt newId now d v] by simp_all
  show ne: "driverReviews (reviewee v) (snd (createReview user bookingId rating cmt newId now d)) \<noteq> []"
    unfolding s using vis a by (simp add: driverReviews_def)
  show "Some (profile_rating p) =
        spec_mean_rating (map review_rating
          (driverReviews (reviewee v) (snd (createReview user bookingId rating cmt newId now d))))"
    using s ne a by (intro recomputed_rating_is_mean) simp_all
next
  assume a: "fst (updateReview user i rating cmt now d) = Inr v \<and>
    reviewType v = ''passenger-to-driver'' \<and>
    driverReviews (reviewee v) (snd (updateReview user i rating cmt now d)) \<noteq> [] \<and>
    whole_ratings (driverReviews (reviewee v) (snd (updateReview user i rating cmt now d))) \<and>
    findProfile (reviewee v) (snd (updateReview user i rating cmt now d)) = Some p"
  then have s: "snd (updateReview user i rating cmt now d) =
              updateDriverRating (reviewee v) (saveReview v d)"
    using updateReview_success [of user i rating cmt now d v] by simp
  show "Some (profile_rating p) =
        spec_mean_rating (map review_rating
          (driverReviews (reviewee v) (snd (updateReview user i rating cmt now d))))"
    using s a by (intro recomputed_rating_is_mean) simp_all
next
  assume a: "fst (deleteReview user i now d) = Inr x \<and> findOwnReview i user d = Some v \<and>
    reviewType v = ''passenger-to-driver'' \<and>
    driverReviews (reviewee v) (snd (deleteReview user i now d)) \<noteq> [] \<and>
    whole_ratings (driverReviews (reviewee v) (snd (deleteReview user i now d))) \<and>
    findProfile (reviewee v) (snd (deleteReview user i now d)) = Some p"
  then have s: "snd (deleteReview user i now d) =
              updateDriverRating (reviewee v)
                (d\<lparr>reviews := delete_first (\<lambda>x. review_id x = i) (reviews d)\<rparr>)"
    using deleteReview_success [of user i now d x v] by simp
  show "Some (profile_rating p) =
        spec_mean_rating (map review_rating
          (driverReviews (reviewee v) (snd (deleteReview user i now d))))"
    using s a by (intro recomputed_rating_is_mean) simp_all
next
  assume a: "fst (updateReview user i rating cmt now d) = Inr v \<and>
    driverReviews (reviewee v) (snd (updateReview user i rating cmt now d)) = []"
  then have s: "snd (updateReview user i rating cmt now d) =
      (if reviewType v = ''passenger-to-driver''
       then updateDriverRating (reviewee v) (saveReview v d) else saveReview v d)"
    using updateReview_success by blast
  show "profiles (snd (updateReview user i rating cmt now d)) = profiles d"
  proof (cases "reviewType v = ''passenger-to-driver''")
    case True
    with a s have "driverReviews (reviewee v) (saveReview v d) = []" by simp
    then have "updateDriverRating (reviewee v) (saveReview v d) = saveReview v d"
      by (rule updateDriverRating_empty)
    with s True show ?thesis by (simp add: saveReview_def)
  next
    case False
    with s show ?thesis by (simp add: saveReview_def)
  qed
next
  assume a: "fst (deleteReview user i now d) = Inr x \<and> findOwnReview i user d = Some v \<and>
    driverReviews (reviewee v) (snd (deleteReview user i now d)) = []"
  let ?d1 = "d\<lparr>reviews := delete_first (\<lambda>x. review_id x = i) (reviews d)\<rparr>"
  from a have s: "snd (deleteReview user i now d) =
      (if reviewType v = ''passenger-to-driver''
       then updateDriverRating (reviewee v) ?d1 else ?d1)"
    using deleteReview_success by blast
  show "profiles (snd (deleteReview user i now d)) = profiles d"
  proof (cases "reviewType v = ''passenger-to-driver''")
    case True
    with a s have "driverReviews (reviewee v) ?d1 = []" by simp
    then have "updateDriverRating (reviewee v) ?d1 = ?d1" by (rule updateDriverRating_empty)
    with s True show ?thesis by simp
  next
    case False
    with s show ?thesis by simp
  qed
next
  assume a: "map review_rating (driverReviews u d) = [5, 4, 3] \<and> findProfile u d = Some p"
  then have "driverReviews u d \<noteq> []" by auto
  then show "findProfile u (updateDriverRating u d) = Some (p\<lparr>profile_rating := 4\<rparr>)"
    using a by (simp add: findProfile_updateDriverRating mean_5_4_3)
next
  assume a: "map review_rating (driverReviews u d) = [5, 5, 4, 4, 4] \<and> findProfile u d = Some p"
  then have "driverReviews u d \<noteq> []" by auto
  then show "findProfile u (updateDriverRating u d) = Some (p\<lparr>profile_rating := 22 / 5\<rparr>)"
    using a by (simp add: findProfile_updateDriverRating mean_5_5_4_4_4)
qed

theorem stored_rating_is_mean_of_visible_reviews_witness:
  "fst (deleteReview 24 4 1000
          (sample_review_db (33 / 10)
             [sample_review 1 5, sample_review 2 4, sample_review 3 3, sample_review 4 1])) = Inr () \<and>
   map review_rating
     (driverReviews 10
        (snd (deleteReview 24 4 1000
           (sample_review_db (33 / 10)
              [sample_review 1 5, sample_review 2 4, sample_review 3 3, sample_review 4 1])))) =
     [5, 4, 3] \<and>
   findProfile 10
     (snd (deleteReview 24 4 1000
        (sample_review_db (33 / 10)
           [sample_review 1 5, sample_review 2 4, sample_review 3 3, sample_review 4 1]))) =
     Some (sample_profile\<lparr>profile_rating := 4\<rparr>) \<and>
   whole_ratings [sample_review 1 5, sample_review 2 4, sample_review 3 3] \<and>
   spec_mean_rating [5, 4, 3] = Some 4"
proof -
  let ?D = "sample_review_db (33 / 10)
             [sample_review 1 5, sample_review 2 4, sample_review 3 3, sample_review 4 1]"
  have ok: "fst (deleteReview 24 4 1000 ?D) = Inr ()"
    by (simp add: sample_review_simps)
  have own: "findOwnReview 4 24 ?D = Some (sample_review 4 1)"
    by (simp add: sample_review_simps)
  have ty: "reviewType (sample_review 4 1) = ''passenger-to-driver''"
    and w: "reviewee (sample_review 4 1) = 10"
    by (simp_all add: sample_review_def)
  have rs: "driverReviews 10 (snd (deleteReview 24 4 1000 ?D)) =
              [sample_review 1 5, sample_review 2 4, sample_review 3 3]"
    by (simp add: sample_review_simps)
  have rt: "map review_rating [sample_review 1 5, sample_review 2 4, sample_review 3 3] = [5, 4, 3]"
    by (simp add: sample_review_def)
  have fp: "findProfile 10 (snd (deleteReview 24 4 1000 ?D)) =
              Some (sample_profile\<lparr>profile_rating := 4\<rparr>)"
    by (simp add: sample_review_simps math_round_def floor_eq_iff)
  have wh: "whole_ratings [sample_review 1 5, sample_review 2 4, sample_review 3 3]"
    by (simp add: whole_ratings_def whole_number_def sample_review_def)
  show ?thesis
    using stored_rating_is_mean_of_visible_reviews
      [where user = 24 and i = 4 and now = 1000 and d = ?D and x = "()"
         and v = "sample_review 4 1" and p = "sample_profile\<lparr>profile_rating := 4\<rparr>"]
      ok own ty w rs rt fp wh
    by simp
qed

text \<open>
  Claim C5 as stated fails when the deleted review was the driver's last one: the
  deletion succeeds, no visible passenger-to-driver review of the driver remains, and
  the profile still shows the rating 5 of the deleted review, which is the mean of no
  current set of reviews.
\<close>

theorem last_review_deleted_counterexample:
  "fst (deleteReview 21 1 1000 (sample_review_db 5 [sample_review 1 5])) = Inr () \<and>
   driverReviews 10 (snd (deleteReview 21 1 1000 (sample_review_db 5 [sample_review 1 5]))) = [] \<and>
   map_option profile_rating
     (findProfile 10 (snd (deleteReview 21 1 1000 (sample_review_db 5 [sample_review 1 5])))) =
     Some 5 \<and>
   map_option profile_rating
     (findProfile 10 (snd (deleteReview 21 1 1000 (sample_review_db 5 [sample_review 1 5])))) \<noteq>
     spec_mean_rating (map review_rating
       (driverReviews 10 (snd (deleteReview 21 1 1000 (sample_review_db 5 [sample_review 1 5])))))"
  by (simp add: sample_review_simps spec_mean_rating_def)

section \<open>Booking and rejecting\<close>

lemma find_snoc:
  "find P (xs @ [y]) = (case find P xs of None \<Rightarrow> (if P y then Some y else None) | Some x \<Rightarrow> Some x)"
  by (induction xs) simp_all

lemma findRide_id: "findRide i d = Some r \<Longrightarrow> ride_id r = i"
  unfolding findRide_def by (drule find_Some_D) simp

lemma findRide_saveRide:
  assumes "findRide i d = Some r" "ride_id r' = i"
  shows "findRide i (saveRide r' d) = Some r'"
  using find_update_first [of "\<lambda>x. ride_id x = i" "rides d" r "\<lambda>_. r'"] assms
  unfolding findRide_def saveRide_def by simp

lemma findRide_bookings_update [simp]: "findRide i (d\<lparr>bookings := bs\<rparr>) = findRide i d"
  by (simp add: findRide_def)

lemma findRide_saveBooking [simp]: "findRide i (saveBooking b d) = findRide i d"
  by (simp add: findRide_def saveBooking_def)

lemma findBooking_saveRide [simp]: "findBooking i (saveRide r d) = findBooking i d"
  by (simp add: findBooking_def saveRide_def)

lemma findBooking_rides_update [simp]: "findBooking i (d\<lparr>rides := rs\<rparr>) = findBooking i d"
  by (simp add: findBooking_def)

lemma findBooking_snoc:
  "findBooking i d = None \<Longrightarrow> booking_id b = i \<Longrightarrow>
   findBooking i (d\<lparr>bookings := bookings d @ [b]\<rparr>) = Some b"
  by (simp add: findBooking_def find_snoc)

text \<open>What \<open>bookRide\<close> does once the request has passed every check.\<close>

lemma bookRide_accepted:
  assumes "req_rideId body = Some rid" "req_seatsBooked body = Some n" "1 \<le> n"
      and "truthy (req_pickupLocation body)" "truthy (req_dropoffLocation body)"
      and "findRide rid d = Some r" "ride_status r = ''scheduled''" "n \<le> availableSeats r"
      and "find (\<lambda>b. booking_ride b = rid \<and> passenger b = user \<and>
                     booking_status b \<notin> set [''cancelled'', ''rejected'']) (bookings d) = None"
      and "driver r \<noteq> user"
      and "(if truthy (req_paymentMethod body) then the (req_paymentMethod body) else ''cash'')
             \<in> set [''cash'', ''online'']"
      and "noteWithinLimit (req_passengerNote body)"
  shows "\<exists>b. bookRide user body newId d =
               (Inr b, saveRide (r\<lparr>availableSeats := availableSeats r - n,
                                    passengers := passengers r @ [newId]\<rparr>)
                         (d\<lparr>bookings := bookings d @ [b]\<rparr>)) \<and>
             booking_id b = newId \<and> booking_ride b = rid \<and> passenger b = user \<and>
             seatsBooked b = n \<and> totalFare b = n * farePerSeat r \<and>
             booking_status b = ''pending''"
proof -
  have nz: "n \<noteq> 0" "\<not> n < 1" "\<not> availableSeats r < n"
    using assms(3,8) by simp_all
  show ?thesis
    unfolding bookRide_def Let_def validNewBooking_def
    using assms(1,2,4-7,9-12) nz assms(3)
    by simp
qed

lemma bookRide_no_seats:
  assumes "req_rideId body = Some rid" "req_seatsBooked body = Some n" "1 \<le> n"
      and "truthy (req_pickupLocation body)" "truthy (req_dropoffLocation body)"
      and "findRide rid d = Some r" "ride_status r = ''scheduled''" "availableSeats r < n"
  shows "bookRide user body newId d = (Inl (OnlySeatsAvailable (availableSeats r)), d)"
proof -
  have nz: "n \<noteq> 0" "\<not> n < 1"
    using assms(3) by simp_all
  show ?thesis
    unfolding bookRide_def Let_def using assms(1,2,4-8) nz by simp
qed

lemma respondToBooking_reject:
  assumes "findBooking i d = Some b" "findRide (booking_ride b) d = Some r" "driver r = user"
      and "booking_status b = ''pending''" "noteWithinLimit note"
  shows "\<exists>b'. respondToBooking user i ''reject'' note now d =
            (Inr b',
             saveBooking b'
               (d\<lparr>rides :=
                    update_first (\<lambda>x. ride_id x = ride_id r)
                      (\<lambda>x. x\<lparr>availableSeats := availableSeats x + seatsBooked b,
                              passengers := removeAll (booking_id b) (passengers x)\<rparr>)
                      (rides d)\<rparr>)) \<and>
          booking_status b' = ''rejected'' \<and> booking_id b' = booking_id b"
  unfolding respondToBooking_def Let_def using assms
  by simp

section \<open>The seat scenario\<close>

text \<open>
  Claim C2. Take a scheduled ride with 4 total and 4 available seats, and a passenger A
  who is not its driver and has no live booking on it. A's request for 3 seats is
  accepted, stored as a booking of 3 seats, and leaves the ride with 1 available seat.
  Any request for 2 seats on that ride that follows (by whatever passenger B) is refused
  with the answer that only 1 seat is available, and leaves the store as it is: no
  booking is created and the seat count stays 1. When the driver then rejects A's
  booking, the booking is \<open>rejected\<close> and the ride has 4 available seats again.
\<close>

theorem book_three_refuse_two_reject_restores:
  assumes "findRide rid d = Some r" and "ride_status r = ''scheduled''"
      and "totalSeats r = 4" and "availableSeats r = 4"
      and "driver r \<noteq> A"
      and "find (\<lambda>b. booking_ride b = rid \<and> passenger b = A \<and>
                     booking_status b \<notin> set [''cancelled'', ''rejected'']) (bookings d) = None"
      and "findBooking newId d = None"
      and "req_rideId bodyA = Some rid" and "req_seatsBooked bodyA = Some 3"
      and "truthy (req_pickupLocation bodyA)" and "truthy (req_dropoffLocation bodyA)"
      and "(if truthy (req_paymentMethod bodyA) then the (req_paymentMethod bodyA) else ''cash'')
             \<in> set [''cash'', ''online'']"
      and "noteWithinLimit (req_passengerNote bodyA)"
      and "req_rideId bodyB = Some rid" and "req_seatsBooked bodyB = Some 2"
      and "truthy (req_pickupLocation bodyB)" and "truthy (req_dropoffLocation bodyB)"
      and "noteWithinLimit note"
  shows "(\<exists>b. fst (bookRide A bodyA newId d) = Inr b \<and> seatsBooked b = 3 \<and>
              booking_status b = ''pending'' \<and>
              findBooking newId (snd (bookRide A bodyA newId d)) = Some b) \<and>
         map_option availableSeats (findRide rid (snd (bookRide A bodyA newId d))) = Some 1 \<and>
         bookRide B bodyB newId2 (snd (bookRide A bodyA newId d)) =
           (Inl (OnlySeatsAvailable 1), snd (bookRide A bodyA newId d)) \<and>
         (\<exists>b'. fst (respondToBooking (driver r) newId ''reject'' note now
                       (snd (bookRide A bodyA newId d))) = Inr b' \<and>
               booking_status b' = ''rejected'' \<and>
               findBooking newId
                 (snd (respondToBooking (driver r) newId ''reject'' note now
                         (snd (bookRide A bodyA newId d)))) = Some b') \<and>
         map_option availableSeats
           (findRide rid
              (snd (respondToBooking (driver r) newId ''reject'' note now
                      (snd (bookRide A bodyA newId d))))) = Some 4"
proof -
  let ?r1 = "r\<lparr>availableSeats := availableSeats r - 3, passengers := passengers r @ [newId]\<rparr>"
  have rid: "ride_id r = rid" using assms(1) by (rule findRide_id)
  have seats: "(1::rat) \<le> 3" "(3::rat) \<le> availableSeats r"
    using assms(4) by simp_all
  obtain b where book: "bookRide A bodyA newId d =
        (Inr b, saveRide ?r1 (d\<lparr>bookings := bookings d @ [b]\<rparr>))"
    and b: "booking_id b = newId" "booking_ride b = rid" "seatsBooked b = 3"
           "booking_status b = ''pending''"
    using bookRide_accepted [OF assms(8,9) seats(1) assms(10,11,1,2) seats(2) assms(6,5,12,13),
        of newId]
    by blast
  let ?d1 = "saveRide ?r1 (d\<lparr>bookings := bookings d @ [b]\<rparr>)"
  have d1: "snd (bookRide A bodyA newId d) = ?d1" and res: "fst (bookRide A bodyA newId d) = Inr b"
    unfolding book by simp_all
  have fb1: "findBooking newId ?d1 = Some b"
    using assms(7) b(1) by (simp add: findBooking_snoc)
  have fr1: "findRide rid ?d1 = Some ?r1"
    using assms(1) rid by (intro findRide_saveRide [where r = r]) simp_all
  have av1: "availableSeats ?r1 = 1"
    using assms(4) by simp
  have first: "\<exists>b. fst (bookRide A bodyA newId d) = Inr b \<and> seatsBooked b = 3 \<and>
              booking_status b = ''pending'' \<and>
              findBooking newId (snd (bookRide A bodyA newId d)) = Some b"
    unfolding d1 using res b fb1 by blast
  have second: "map_option availableSeats (findRide rid (snd (bookRide A bodyA newId d))) = Some 1"
    unfolding d1 fr1 using av1 by simp
  have "bookRide B bodyB newId2 ?d1 = (Inl (OnlySeatsAvailable (availableSeats ?r1)), ?d1)"
    using assms(2) av1
    by (intro bookRide_no_seats [OF assms(14,15) _ assms(16,17) fr1]) simp_all
  then have third: "bookRide B bodyB newId2 (snd (bookRide A bodyA newId d)) =
           (Inl (OnlySeatsAvailable 1), snd (bookRide A bodyA newId d))"
    unfolding d1 using av1 by simp
  have fr1': "findRide (booking_ride b) ?d1 = Some ?r1"
    unfolding b(2) by (rule fr1)
  have drv: "driver ?r1 = driver r" by simp
  obtain b' where rej: "respondToBooking (driver r) newId ''reject'' note now ?d1 =
            (Inr b',
             saveBooking b'
               (?d1\<lparr>rides :=
                    update_first (\<lambda>x. ride_id x = ride_id ?r1)
                      (\<lambda>x. x\<lparr>availableSeats := availableSeats x + seatsBooked b,
                              passengers := removeAll (booking_id b) (passengers x)\<rparr>)
                      (rides ?d1)\<rparr>))"
    and b': "booking_status b' = ''rejected''" "booking_id b' = booking_id b"
    using respondToBooking_reject [OF fb1 fr1' drv b(4) assms(18), of now] by blast
  let ?d2 = "?d1\<lparr>rides :=
                    update_first (\<lambda>x. ride_id x = ride_id ?r1)
                      (\<lambda>x. x\<lparr>availableSeats := availableSeats x + seatsBooked b,
                              passengers := removeAll (booking_id b) (passengers x)\<rparr>)
                      (rides ?d1)\<rparr>"
  have d3: "snd (respondToBooking (driver r) newId ''reject'' note now
                   (snd (bookRide A bodyA newId d))) = saveBooking b' ?d2"
    and res3: "fst (respondToBooking (driver r) newId ''reject'' note now
                   (snd (bookRide A bodyA newId d))) = Inr b'"
    unfolding d1 rej by simp_all
  have "findBooking newId ?d2 = Some b"
    using fb1 by simp
  then have fb3: "findBooking newId (saveBooking b' ?d2) = Some b'"
    using b'(2) b(1) by (intro findBooking_saveBooking [where b = b]) simp_all
  have "find (\<lambda>x. ride_id x = rid)
          (update_first (\<lambda>x. ride_id x = rid)
             (\<lambda>x. x\<lparr>availableSeats := availableSeats x + seatsBooked b,
                     passengers := removeAll (booking_id b) (passengers x)\<rparr>)
             (rides ?d1)) =
        Some (?r1\<lparr>availableSeats := availableSeats ?r1 + seatsBooked b,
                   passengers := removeAll (booking_id b) (passengers ?r1)\<rparr>)"
    using fr1 rid unfolding findRide_def by (intro find_update_first) simp_all
  then have fr3: "map_option availableSeats (findRide rid (saveBooking b' ?d2)) = Some 4"
    using rid b(3) assms(4) by (simp add: findRide_def)
  have fourth: "\<exists>b'. fst (respondToBooking (driver r) newId ''reject'' note now
                       (snd (bookRide A bodyA newId d))) = Inr b' \<and>
               booking_status b' = ''rejected'' \<and>
               findBooking newId
                 (snd (respondToBooking (driver r) newId ''reject'' note now
                         (snd (bookRide A bodyA newId d)))) = Some b'"
    unfolding d3 using res3 b'(1) fb3 by blast
  have fifth: "map_option availableSeats
           (findRide rid
              (snd (respondToBooking (driver r) newId ''reject'' note now
                      (snd (bookRide A bodyA newId d))))) = Some 4"
    unfolding d3 by (rule fr3)
  from first second third fourth fifth show ?thesis by blast
qed

theorem book_three_refuse_two_reject_restores_witness:
  "findRide 1 sample_open_db = Some sample_ride \<and>
   totalSeats sample_ride = 4 \<and> availableSeats sample_ride = 4 \<and>
   bookRide 20 (sample_body 3) 100 sample_open_db =
     (Inr (sample_booking ''pending''), sample_db ''pending'') \<and>
   map_option availableSeats (findRide 1 (sample_db ''pending'')) = Some 1 \<and>
   bookRide 30 (sample_body 2) 101 (sample_db ''pending'') =
     (Inl (OnlySeatsAvailable 1), sample_db ''pending'') \<and>
   map_option availableSeats
     (findRide 1 (snd (respondToBooking 10 100 ''reject'' None 9 (sample_db ''pending'')))) = Some 4"
proof -
  have h1: "findRide 1 sample_open_db = Some sample_ride"
    by (simp add: findRide_def sample_open_db_def sample_ride_def)
  have h2: "ride_status sample_ride = ''scheduled''"
    and h3: "totalSeats sample_ride = 4" and h4: "availableSeats sample_ride = 4"
    and h5: "driver sample_ride \<noteq> 20" and drv: "driver sample_ride = 10"
    by (simp_all add: sample_ride_def)
  have h6: "find (\<lambda>b. booking_ride b = 1 \<and> passenger b = 20 \<and>
                     booking_status b \<notin> set [''cancelled'', ''rejected''])
              (bookings sample_open_db) = None"
    by (simp add: sample_open_db_def)
  have h7: "findBooking 100 sample_open_db = None"
    by (simp add: findBooking_def sample_open_db_def)
  have h8: "req_rideId (sample_body 3) = Some 1" and h9: "req_seatsBooked (sample_body 3) = Some 3"
    and h10: "truthy (req_pickupLocation (sample_body 3))"
    and h11: "truthy (req_dropoffLocation (sample_body 3))"
    and h12: "(if truthy (req_paymentMethod (sample_body 3))
               then the (req_paymentMethod (sample_body 3)) else ''cash'')
              \<in> set [''cash'', ''online'']"
    and h13: "noteWithinLimit (req_passengerNote (sample_body 3))"
    by (simp_all add: sample_body_def truthy_def noteWithinLimit_def)
  have h14: "req_rideId (sample_body 2) = Some 1" and h15: "req_seatsBooked (sample_body 2) = Some 2"
    and h16: "truthy (req_pickupLocation (sample_body 2))"
    and h17: "truthy (req_dropoffLocation (sample_body 2))"
    by (simp_all add: sample_body_def truthy_def)
  have h18: "noteWithinLimit None"
    by (simp add: noteWithinLimit_def)
  have run: "bookRide 20 (sample_body 3) 100 sample_open_db =
     (Inr (sample_booking ''pending''), sample_db ''pending'')"
    by (simp add: bookRide_def Let_def validNewBooking_def noteWithinLimit_def truthy_def
        findRide_def saveRide_def sample_body_def sample_open_db_def sample_ride_def
        sample_booking_def sample_db_def)
  show ?thesis
    using book_three_refuse_two_reject_restores
      [OF h1 h2 h3 h4 h5 h6 h7 h8 h9 h10 h11 h12 h13 h14 h15 h16 h17 h18, of 30 101 9]
      h1 h3 h4 run drv
    by simp
qed

section \<open>Overlapping booking requests\<close>

lemma update_first_found:
  "find P xs = Some x \<Longrightarrow> update_first P f xs = update_first P (\<lambda>_. f x) xs"
  by (induction xs) (auto split: if_splits)

lemma bookRide_save_after_read:
  assumes "findRide i d = Some r"
  shows "bookRide_save r b d =
           saveRide (r\<lparr>availableSeats := availableSeats r - seatsBooked b,
                       passengers := passengers r @ [booking_id b]\<rparr>) d"
proof -
  have "ride_id r = i" using assms by (rule findRide_id)
  then have "find (\<lambda>x. ride_id x = ride_id r) (rides d) = Some r"
    using assms by (simp add: findRide_def)
  then have "update_first (\<lambda>x. ride_id x = ride_id r)
               (\<lambda>x. x\<lparr>availableSeats := availableSeats r - seatsBooked b,
                       passengers := passengers x @ [booking_id b]\<rparr>) (rides d) =
             update_first (\<lambda>x. ride_id x = ride_id r)
               (\<lambda>_. r\<lparr>availableSeats := availableSeats r - seatsBooked b,
                       passengers := passengers r @ [booking_id b]\<rparr>) (rides d)"
    by (rule update_first_found)
  then show ?thesis
    unfolding bookRide_save_def saveRide_def by simp
qed

lemma seats_cond: "(seats = 0 \<or> seats < 1) = (seats < (1::rat))"
  by auto

text \<open>Run without a break, the four steps are \<open>bookRide\<close>.\<close>

lemma bookRide_by_steps:
  "bookRide user body newId d =
     (case bookRide_findRide body d of
        Inl e \<Rightarrow> (Inl e, d)
      | Inr r \<Rightarrow> bookRide_rest user body r newId d)"
proof (cases "req_rideId body")
  case None
  then show ?thesis by (simp add: bookRide_def bookRide_findRide_def)
next
  case rid: (Some rideId)
  show ?thesis
  proof (cases "req_seatsBooked body")
    case None
    then show ?thesis using rid by (simp add: bookRide_def bookRide_findRide_def)
  next
    case seats: (Some seats)
    note req = rid seats
    show ?thesis
    proof (cases "seats < 1")
      case True
      then show ?thesis using req by (simp add: bookRide_def bookRide_findRide_def seats_cond)
    next
      case s: False
      show ?thesis
      proof (cases "truthy (req_pickupLocation body)")
        case False
        then show ?thesis using req s
          by (simp add: bookRide_def bookRide_findRide_def seats_cond)
      next
        case p: True
        show ?thesis
        proof (cases "truthy (req_dropoffLocation body)")
          case False
          then show ?thesis using req s p
            by (simp add: bookRide_def bookRide_findRide_def seats_cond)
        next
          case q: True
          show ?thesis
          proof (cases "findRide rideId d")
            case None
            then show ?thesis using req s p q
              by (simp add: bookRide_def bookRide_findRide_def seats_cond)
          next
            case r: (Some r)
            have fr: "\<And>bs. findRide rideId (d\<lparr>bookings := bs\<rparr>) = Some r"
              using r by simp
            show ?thesis
            proof (cases "ride_status r = ''scheduled''")
              case False
              then show ?thesis using req s p q r
                by (simp add: bookRide_def bookRide_findRide_def seats_cond)
            next
              case st: True
              show ?thesis
              proof (cases "availableSeats r < seats")
                case True
                then show ?thesis using req s p q r st
                  by (simp add: bookRide_def bookRide_findRide_def seats_cond)
              next
                case av: False
                have rd: "bookRide_findRide body d = Inr r"
                  using req s p q r st av by (simp add: bookRide_findRide_def seats_cond)
                show ?thesis
                  unfolding rd bookRide_def bookRide_rest_def bookRide_findExisting_def
                    bookRide_create_def
                  using req s p q r st av
                  by (simp add: Let_def seats_cond bookRide_save_after_read [OF fr])
              qed
            qed
          qed
        qed
      qed
    qed
  qed
qed

text \<open>
  Claim C9 at a failing input. Run one after the other without a break, the four steps
  of \<open>bookRide\<close> are the handler itself. But nothing joins them into one unit: when two
  passengers ask for 3 seats each on the sample ride (4 seats, all free) and the second
  request reads the ride before the first has saved it, both requests pass the seat
  check, both are answered with their booking, and the store ends with two pending
  bookings of 3 seats each on a ride of 4 seats whose \<open>availableSeats\<close> is 1. Had the
  second request started after the first had ended, it would have been refused.
\<close>

theorem overlapping_bookings_oversell:
  "bookRide user body newId d =
     (case bookRide_findRide body d of
        Inl e \<Rightarrow> (Inl e, d)
      | Inr r \<Rightarrow> bookRide_rest user body r newId d) \<and>
   \<not> isl (fst (bookRide_overlapped 20 (sample_body 3) 100 30 (sample_body 3) 101 sample_open_db)) \<and>
   \<not> isl (fst (snd (bookRide_overlapped 20 (sample_body 3) 100 30 (sample_body 3) 101
                      sample_open_db))) \<and>
   map booking_status
     (bookings (snd (snd (bookRide_overlapped 20 (sample_body 3) 100 30 (sample_body 3) 101
                            sample_open_db)))) = [''pending'', ''pending''] \<and>
   map booking_ride
     (bookings (snd (snd (bookRide_overlapped 20 (sample_body 3) 100 30 (sample_body 3) 101
                            sample_open_db)))) = [1, 1] \<and>
   map passenger
     (bookings (snd (snd (bookRide_overlapped 20 (sample_body 3) 100 30 (sample_body 3) 101
                            sample_open_db)))) = [20, 30] \<and>
   map seatsBooked
     (bookings (snd (snd (bookRide_overlapped 20 (sample_body 3) 100 30 (sample_body 3) 101
                            sample_open_db)))) = [3, 3] \<and>
   map ride_id
     (rides (snd (snd (bookRide_overlapped 20 (sample_body 3) 100 30 (sample_body 3) 101
                         sample_open_db)))) = [1] \<and>
   map totalSeats
     (rides (snd (snd (bookRide_overlapped 20 (sample_body 3) 100 30 (sample_body 3) 101
                         sample_open_db)))) = [4] \<and>
   map availableSeats
     (rides (snd (snd (bookRide_overlapped 20 (sample_body 3) 100 30 (sample_body 3) 101
                         sample_open_db)))) = [1] \<and>
   fst (bookRide 30 (sample_body 3) 101
          (snd (bookRide 20 (sample_body 3) 100 sample_open_db))) =
     Inl (OnlySeatsAvailable 1)"
proof -
  have steps: "bookRide user body newId d =
     (case bookRide_findRide body d of
        Inl e \<Rightarrow> (Inl e, d)
      | Inr r \<Rightarrow> bookRide_rest user body r newId d)"
    by (rule bookRide_by_steps)
  have read: "bookRide_findRide (sample_body 3) sample_open_db = Inr sample_ride"
    by (simp add: bookRide_findRide_def findRide_def truthy_def sample_body_def
        sample_open_db_def sample_ride_def)
  have first: "bookRide_rest 20 (sample_body 3) sample_ride 100 sample_open_db =
      (Inr (sample_booking ''pending''), sample_db ''pending'')"
    by (simp add: bookRide_rest_def bookRide_findExisting_def bookRide_create_def
        bookRide_save_def validNewBooking_def noteWithinLimit_def truthy_def Let_def
        sample_body_def sample_open_db_def sample_ride_def sample_booking_def sample_db_def)
  have second: "bookRide_rest 30 (sample_body 3) sample_ride 101 (sample_db ''pending'') =
      (Inr ((sample_booking ''pending'')\<lparr>booking_id := 101, passenger := 30\<rparr>),
       \<lparr>rides = [sample_ride\<lparr>availableSeats := 1, passengers := [100, 101]\<rparr>],
        bookings = [sample_booking ''pending'',
                    (sample_booking ''pending'')\<lparr>booking_id := 101, passenger := 30\<rparr>],
        profiles = [sample_profile], reviews = []\<rparr>)"
    by (simp add: bookRide_rest_def bookRide_findExisting_def bookRide_create_def
        bookRide_save_def validNewBooking_def noteWithinLimit_def truthy_def Let_def
        sample_body_def sample_ride_def sample_booking_def sample_db_def)
  have run: "bookRide_overlapped 20 (sample_body 3) 100 30 (sample_body 3) 101 sample_open_db =
      (Inr (sample_booking ''pending''),
       Inr ((sample_booking ''pending'')\<lparr>booking_id := 101, passenger := 30\<rparr>),
       \<lparr>rides = [sample_ride\<lparr>availableSeats := 1, passengers := [100, 101]\<rparr>],
        bookings = [sample_booking ''pending'',
                    (sample_booking ''pending'')\<lparr>booking_id := 101, passenger := 30\<rparr>],
        profiles = [sample_profile], reviews = []\<rparr>)"
    unfolding bookRide_overlapped_def Let_def read by (simp add: first second)
  have one: "bookRide 20 (sample_body 3) 100 sample_open_db =
      (Inr (sample_booking ''pending''), sample_db ''pending'')"
    unfolding bookRide_by_steps read by (simp add: first)
  have late: "bookRide_findRide (sample_body 3) (sample_db ''pending'') =
      Inl (OnlySeatsAvailable 1)"
    by (simp add: bookRide_findRide_def findRide_def truthy_def sample_body_def
        sample_db_def sample_ride_def)
  have refused: "fst (bookRide 30 (sample_body 3) 101
          (snd (bookRide 20 (sample_body 3) 100 sample_open_db))) = Inl (OnlySeatsAvailable 1)"
    unfolding one by (simp add: bookRide_by_steps late)
  show ?thesis
    unfolding run using steps refused
    by (simp add: sample_booking_def sample_ride_def)
qed

section \<open>How requests change the bookings\<close>

lemma map_update_first:
  "(\<And>x. P x \<Longrightarrow> g (f x) = g x) \<Longrightarrow> map g (update_first P f xs) = map g xs"
  by (induction xs) auto










subsection \<open>The bookings and the counters after each handler\<close>

lemma ledger_profiles_update:
  "(\<And>p. P p \<Longrightarrow> profile_user (f p) = profile_user p \<and> totalRides (f p) = totalRides p \<and>
          totalEarnings (f p) = totalEarnings p) \<Longrightarrow>
   ledger (d\<lparr>profiles := update_first P f (profiles d)\<rparr>) = ledger d"
  unfolding ledger_def by (simp, rule map_update_first) simp

lemma ledger_updateDriverRating [simp]: "ledger (updateDriverRating u d) = ledger d"
  unfolding updateDriverRating_def Let_def
  by (simp add: ledger_profiles_update)

lemma bookings_updateDriverRating [simp]: "bookings (updateDriverRating u d) = bookings d"
  by (simp add: updateDriverRating_def Let_def)

lemma ledger_other_update [simp]:
  "ledger (d\<lparr>bookings := bs\<rparr>) = ledger d" "ledger (d\<lparr>rides := rs\<rparr>) = ledger d"
  "ledger (d\<lparr>reviews := vs\<rparr>) = ledger d"
  by (simp_all add: ledger_def)

lemma ledger_save [simp]:
  "ledger (saveBooking b d) = ledger d" "ledger (saveRide r d) = ledger d"
  "ledger (saveReview v d) = ledger d"
  by (simp_all add: saveBooking_def saveRide_def saveReview_def)

lemma bookings_save [simp]:
  "bookings (saveReview v d) = bookings d"
  by (simp add: saveReview_def)












subsection \<open>Every request\<close>



subsection \<open>Requests in sequence\<close>








section \<open>Completion, once and only there\<close>



end
